theory Spec2Isabelle
  imports Complex_Main "HOL-Library.Sublist"
begin

section \<open>Python values, exceptions and the library calls the code relies on\<close>

text \<open>
  The repository is Python. An exception is a value of \<open>py_exn\<close>, and a call that may
  raise returns \<open>py_exn + 'a\<close> with \<open>Inl\<close> for the exception. A \<open>try ... except Exception\<close>
  of the source is a case distinction on that sum.
\<close>

datatype py_exn =
    ValueError
  | TypeError
  | OverflowError
  | KeyError
  | IndexError
  | OSError
  | OutOfBoundsError
  | IntegrityError string
  | OperationalError
  | DataError

definition bnd :: "'e + 'a \<Rightarrow> ('a \<Rightarrow> 'e + 'b) \<Rightarrow> 'e + 'b" where
  "bnd r f = (case r of Inl e \<Rightarrow> Inl e | Inr x \<Rightarrow> f x)"

text \<open>
  A floating-point number is a finite value, NaN or one of the two infinities. Only this
  classification is modelled: the finite values are reals, rounding is not represented.
\<close>

datatype npfloat = Fin real | NaN | PosInf | NegInf

text \<open>
  The scalars that occur as array elements and as dictionary values: \<open>None\<close>, integers,
  floats, strings (text or bytes) and timestamps (nanoseconds since 1970-01-01, as pandas
  keeps them).
\<close>

datatype pyval = PyNone | PyInt int | PyFloat npfloat | PyStr string | PyTime int

text \<open>
  The text conventions of the Python builtins are not part of the repository: the literal
  grammars of \<open>int(s)\<close> and \<open>float(s)\<close> on a string (\<open>None\<close> when they raise ValueError)
  and the rendering \<open>str(x)\<close> are parameters of the model.
\<close>

record pylib =
  lit_int :: "string \<Rightarrow> int option"
  lit_float :: "string \<Rightarrow> npfloat option"
  to_str :: "pyval \<Rightarrow> string"

definition trunc :: "real \<Rightarrow> int" where
  "trunc r = (if 0 \<le> r then \<lfloor>r\<rfloor> else \<lceil>r\<rceil>)"

text \<open>\<open>int(x)\<close>: truncates a finite float, raises ValueError on NaN and on a malformed
  literal, OverflowError on an infinity, TypeError on a value with no integer conversion.\<close>

fun py_int :: "pylib \<Rightarrow> pyval \<Rightarrow> py_exn + int" where
  "py_int lib (PyInt n) = Inr n"
| "py_int lib (PyFloat (Fin r)) = Inr (trunc r)"
| "py_int lib (PyFloat NaN) = Inl ValueError"
| "py_int lib (PyFloat PosInf) = Inl OverflowError"
| "py_int lib (PyFloat NegInf) = Inl OverflowError"
| "py_int lib (PyStr s) = (case lit_int lib s of None \<Rightarrow> Inl ValueError | Some n \<Rightarrow> Inr n)"
| "py_int lib PyNone = Inl TypeError"
| "py_int lib (PyTime t) = Inl TypeError"

text \<open>\<open>float(x)\<close>.\<close>

fun py_float :: "pylib \<Rightarrow> pyval \<Rightarrow> py_exn + npfloat" where
  "py_float lib (PyFloat f) = Inr f"
| "py_float lib (PyInt n) = Inr (Fin (of_int n))"
| "py_float lib (PyStr s) = (case lit_float lib s of None \<Rightarrow> Inl ValueError | Some f \<Rightarrow> Inr f)"
| "py_float lib PyNone = Inl TypeError"
| "py_float lib (PyTime t) = Inl TypeError"

text \<open>\<open>np.isnan\<close> and \<open>np.isinf\<close> are defined on numbers and raise TypeError elsewhere.\<close>

fun np_isnan :: "pyval \<Rightarrow> py_exn + bool" where
  "np_isnan (PyFloat f) = Inr (f = NaN)"
| "np_isnan (PyInt n) = Inr False"
| "np_isnan v = Inl TypeError"

fun np_isinf :: "pyval \<Rightarrow> py_exn + bool" where
  "np_isinf (PyFloat f) = Inr (f = PosInf \<or> f = NegInf)"
| "np_isinf (PyInt n) = Inr False"
| "np_isinf v = Inl TypeError"

text \<open>
  \<open>ds[name].values\<close> is a numpy array: a 0-dimensional scalar or a 1-dimensional vector.
  \<open>len\<close> raises TypeError on a 0-dimensional array, \<open>item()\<close> raises ValueError unless
  the array holds exactly one element, indexing raises IndexError out of range.
\<close>

datatype ndarray = Scalar pyval | Vec "pyval list"

fun np_len :: "ndarray \<Rightarrow> py_exn + nat" where
  "np_len (Scalar v) = Inl TypeError"
| "np_len (Vec xs) = Inr (length xs)"

fun np_item :: "ndarray \<Rightarrow> py_exn + pyval" where
  "np_item (Scalar v) = Inr v"
| "np_item (Vec [v]) = Inr v"
| "np_item (Vec xs) = Inl ValueError"

fun np_index :: "ndarray \<Rightarrow> nat \<Rightarrow> py_exn + pyval" where
  "np_index (Scalar v) i = Inl IndexError"
| "np_index (Vec xs) i = (if i < length xs then Inr (xs ! i) else Inl IndexError)"

text \<open>An opened dataset: its dimension sizes and its named arrays.\<close>

record dataset =
  dims :: "string \<rightharpoonup> nat"
  variables :: "string \<rightharpoonup> ndarray"

type_synonym pydict = "string \<rightharpoonup> pyval"

text \<open>
  pandas timestamps and time deltas are 64-bit counts of nanoseconds.
  \<open>pd.Timedelta(days=d)\<close> converts with \<open>int\<close>, so it raises on a non-finite \<open>d\<close> and when
  the count does not fit; \<open>Timestamp + Timedelta\<close> raises when the sum does not fit.
\<close>

definition ns_per_day :: int where
  "ns_per_day = 86400 * 1000000000"

definition i64_max :: int where
  "i64_max = 2 ^ 63 - 1"

definition base_date :: int where
  \<comment> \<open>\<open>pd.Timestamp('1950-01-01')\<close>: 7305 days before 1970-01-01\<close>
  "base_date = - 7305 * ns_per_day"

fun pd_timedelta_days :: "pyval \<Rightarrow> py_exn + int" where
  "pd_timedelta_days (PyFloat (Fin r)) =
     (let ns = trunc (r * of_int ns_per_day)
      in if \<bar>ns\<bar> \<le> i64_max then Inr ns else Inl OutOfBoundsError)"
| "pd_timedelta_days (PyFloat NaN) = Inl ValueError"
| "pd_timedelta_days (PyFloat PosInf) = Inl OverflowError"
| "pd_timedelta_days (PyFloat NegInf) = Inl OverflowError"
| "pd_timedelta_days (PyInt n) =
     (let ns = n * ns_per_day
      in if \<bar>ns\<bar> \<le> i64_max then Inr ns else Inl OutOfBoundsError)"
| "pd_timedelta_days v = Inl TypeError"

definition ts_add :: "int \<Rightarrow> int \<Rightarrow> py_exn + int" where
  "ts_add t d = (if \<bar>t + d\<bar> \<le> i64_max then Inr (t + d) else Inl OutOfBoundsError)"

section \<open>NetCDFProcessor\<close>

subsection \<open>The file system\<close>

text \<open>
  A path names a file or nothing. Reading a file's bytes may fail (\<open>content = None\<close>), and
  \<open>xr.open_dataset\<close> on it either raises or yields a dataset.
\<close>

record fnode =
  content :: "string option"
  opened :: "py_exn + dataset"

type_synonym filesystem = "string \<rightharpoonup> fnode"

subsection \<open>validate_file\<close>

definition supported_formats :: "string list" where
  "supported_formats = [''.nc'', ''.netcdf'']"

definition required_variables :: "string list" where
  "required_variables = [''PRES'', ''TEMP'', ''PSAL'']"

text \<open>\<open>os.path.splitext(p)[1]\<close> on a POSIX path: the text from the last dot of the last
  path component, unless only dots precede that dot in the component.\<close>

definition basename :: "string \<Rightarrow> string" where
  "basename p = rev (takeWhile (\<lambda>c. c \<noteq> CHR ''/'') (rev p))"

definition splitext_ext :: "string \<Rightarrow> string" where
  "splitext_ext p =
     (let b = basename p;
          tail = rev (takeWhile (\<lambda>c. c \<noteq> CHR ''.'') (rev b))
      in if length tail = length b then []
         else if list_ex (\<lambda>c. c \<noteq> CHR ''.'') (take (length b - length tail - 1) b)
              then CHR ''.'' # tail
              else [])"

text \<open>\<open>str.lower\<close> on ASCII letters.\<close>

definition lower_char :: "char \<Rightarrow> char" where
  "lower_char c =
     (case map_of (zip ''ABCDEFGHIJKLMNOPQRSTUVWXYZ'' ''abcdefghijklmnopqrstuvwxyz'') c of
        None \<Rightarrow> c
      | Some l \<Rightarrow> l)"

definition lower :: "string \<Rightarrow> string" where
  "lower s = map lower_char s"

text \<open>The body of \<open>validate_file\<close> inside its \<open>try\<close>.\<close>

definition validate_file_body :: "filesystem \<Rightarrow> string \<Rightarrow> py_exn + bool" where
  "validate_file_body fs file_path =
     (case fs file_path of
        None \<Rightarrow> Inr False
      | Some f \<Rightarrow>
          if lower (splitext_ext file_path) \<notin> set supported_formats then Inr False
          else bnd (opened f) (\<lambda>ds.
            if \<not> list_ex (\<lambda>var. variables ds var \<noteq> None) required_variables
            then Inr False
            else Inr True))"

definition validate_file :: "filesystem \<Rightarrow> string \<Rightarrow> bool" where
  "validate_file fs file_path =
     (case validate_file_body fs file_path of Inl e \<Rightarrow> False | Inr b \<Rightarrow> b)"

subsection \<open>calculate_file_hash\<close>

text \<open>
  The digest function is a parameter: \<open>md5 bs\<close> is the hexadecimal MD5 digest of the
  bytes \<open>bs\<close>. A hash object accumulates the bytes it is fed; the file is read in chunks
  of 4096 bytes until a read returns no bytes.
\<close>

function chunks :: "nat \<Rightarrow> 'a list \<Rightarrow> 'a list list" where
  "chunks n xs = (if n = 0 \<or> xs = [] then [] else take n xs # chunks n (drop n xs))"
  by pat_completeness auto
termination
  by (relation "measure (\<lambda>(n, xs). length xs)") auto

definition hash_update :: "string \<Rightarrow> string \<Rightarrow> string" where
  "hash_update st chunk = st @ chunk"

definition calculate_file_hash :: "(string \<Rightarrow> string) \<Rightarrow> filesystem \<Rightarrow> string \<Rightarrow> string" where
  "calculate_file_hash md5 fs file_path =
     (case fs file_path of
        None \<Rightarrow> []
      | Some f \<Rightarrow>
          (case content f of
             None \<Rightarrow> []
           | Some bs \<Rightarrow> md5 (foldl hash_update [] (chunks 4096 bs))))"

subsection \<open>extract_profile_metadata\<close>

text \<open>
  Every \<open>ds[name].values\<close> is a numpy array, which always has an \<open>item\<close> attribute: the
  \<open>hasattr(..., 'item')\<close> tests of the source are true and each field is read with
  \<open>item()\<close>. The steps run in the source's order on the dictionary built so far; the
  first exception ends the body. \<open>now\<close> is the value of \<open>datetime.now()\<close>.
\<close>

definition md_platform :: "pylib \<Rightarrow> dataset \<Rightarrow> pydict \<Rightarrow> py_exn + pydict" where
  "md_platform lib ds md =
     (case variables ds ''PLATFORM_NUMBER'' of
        None \<Rightarrow> Inr md
      | Some a \<Rightarrow> bnd (np_item a) (\<lambda>v. Inr (md(''platform_number'' \<mapsto> PyStr (to_str lib v)))))"

definition md_float_id :: "pydict \<Rightarrow> py_exn + pydict" where
  "md_float_id md =
     Inr (md(''float_id'' \<mapsto>
       (case md ''platform_number'' of None \<Rightarrow> PyStr ''unknown'' | Some v \<Rightarrow> v)))"

definition md_cycle :: "pylib \<Rightarrow> dataset \<Rightarrow> pydict \<Rightarrow> py_exn + pydict" where
  "md_cycle lib ds md =
     (case variables ds ''CYCLE_NUMBER'' of
        None \<Rightarrow> Inr (md(''cycle_number'' \<mapsto> PyInt 0))
      | Some a \<Rightarrow> bnd (np_item a) (\<lambda>v. bnd (py_int lib v) (\<lambda>n.
          Inr (md(''cycle_number'' \<mapsto> PyInt n)))))"

definition md_coord :: "pylib \<Rightarrow> dataset \<Rightarrow> string \<Rightarrow> string \<Rightarrow> pydict \<Rightarrow> py_exn + pydict" where
  "md_coord lib ds var key md =
     (case variables ds var of
        None \<Rightarrow> Inr md
      | Some a \<Rightarrow> bnd (np_item a) (\<lambda>v. bnd (py_float lib v) (\<lambda>f.
          Inr (md(key \<mapsto> PyFloat f)))))"

definition md_date :: "int \<Rightarrow> dataset \<Rightarrow> pydict \<Rightarrow> py_exn + pydict" where
  "md_date now ds md =
     (case variables ds ''JULD'' of
        None \<Rightarrow> Inr (md(''measurement_date'' \<mapsto> PyTime now))
      | Some juld \<Rightarrow> bnd (np_item juld) (\<lambda>julian_day. bnd (np_isnan julian_day) (\<lambda>nan.
          if \<not> nan
          then bnd (pd_timedelta_days julian_day) (\<lambda>d. bnd (ts_add base_date d) (\<lambda>measurement_date.
                 Inr (md(''measurement_date'' \<mapsto> PyTime measurement_date))))
          else Inr (md(''measurement_date'' \<mapsto> PyTime now)))))"

definition md_data_center :: "pylib \<Rightarrow> dataset \<Rightarrow> pydict \<Rightarrow> py_exn + pydict" where
  "md_data_center lib ds md =
     (if variables ds ''DATA_CENTRE'' \<noteq> None \<or> variables ds ''DATA_CENTER'' \<noteq> None
      then (let dc_var = (if variables ds ''DATA_CENTRE'' \<noteq> None
                          then ''DATA_CENTRE'' else ''DATA_CENTER'')
            in case variables ds dc_var of
                 None \<Rightarrow> Inl KeyError
               | Some a \<Rightarrow> bnd (np_item a) (\<lambda>v.
                   Inr (md(''data_center'' \<mapsto> PyStr (to_str lib v)))))
      else Inr (md(''data_center'' \<mapsto> PyStr ''unknown'')))"

definition extract_profile_metadata_body :: "pylib \<Rightarrow> int \<Rightarrow> dataset \<Rightarrow> py_exn + pydict" where
  "extract_profile_metadata_body lib now ds =
     bnd (md_platform lib ds Map.empty) (\<lambda>md1.
     bnd (md_float_id md1) (\<lambda>md2.
     bnd (md_cycle lib ds md2) (\<lambda>md3.
     bnd (md_coord lib ds ''LATITUDE'' ''latitude'' md3) (\<lambda>md4.
     bnd (md_coord lib ds ''LONGITUDE'' ''longitude'' md4) (\<lambda>md5.
     bnd (md_date now ds md5) (\<lambda>md6.
     md_data_center lib ds md6))))))"

text \<open>\<open>except Exception: return {}\<close>.\<close>

definition extract_profile_metadata :: "pylib \<Rightarrow> int \<Rightarrow> dataset \<Rightarrow> pydict" where
  "extract_profile_metadata lib now ds =
     (case extract_profile_metadata_body lib now ds of Inl e \<Rightarrow> Map.empty | Inr md \<Rightarrow> md)"

subsection \<open>extract_measurements\<close>

text \<open>
  \<open>validate_measurement_data\<close> comes from \<open>database.schema\<close>, which is not among the
  sources: it is the parameter \<open>validate\<close>, a function of the record that returns a
  truth value or raises.
\<close>

type_synonym validator = "pydict \<Rightarrow> py_exn + bool"

text \<open>The number of levels; \<open>None\<close> is the early \<open>return []\<close>.\<close>

definition n_levels_of :: "dataset \<Rightarrow> py_exn + nat option" where
  "n_levels_of ds =
     (case dims ds ''N_LEVELS'' of
        Some n \<Rightarrow> Inr (Some n)
      | None \<Rightarrow>
          (case variables ds ''PRES'' of
             Some a \<Rightarrow> bnd (np_len a) (\<lambda>n. Inr (Some n))
           | None \<Rightarrow> Inr None))"

text \<open>The \<open>variables\<close> dictionary in insertion order; \<open>None\<close> is the early \<open>return []\<close>
  when one of the three required arrays is missing.\<close>

definition optional_variables :: "(string \<times> string) list" where
  "optional_variables =
     [(''DOXY'', ''oxygen''), (''NITRATE'', ''nitrate''),
      (''PH_IN_SITU_TOTAL'', ''ph''), (''CHLA'', ''chlorophyll'')]"

definition measurement_arrays :: "dataset \<Rightarrow> (string \<times> ndarray) list option" where
  "measurement_arrays ds =
     (case variables ds ''PRES'' of
        None \<Rightarrow> None
      | Some pres \<Rightarrow>
          (case variables ds ''TEMP'' of
             None \<Rightarrow> None
           | Some temp \<Rightarrow>
               (case variables ds ''PSAL'' of
                  None \<Rightarrow> None
                | Some psal \<Rightarrow>
                    Some ([(''pressure'', pres), (''temperature'', temp), (''salinity'', psal)] @
                      concat (map (\<lambda>(var, key).
                        case variables ds var of None \<Rightarrow> [] | Some a \<Rightarrow> [(key, a)])
                        optional_variables)))))"

definition qc_params :: "string list" where
  "qc_params = [''PRES'', ''TEMP'', ''PSAL'', ''DOXY'', ''NITRATE'', ''PH_IN_SITU_TOTAL'', ''CHLA'']"

definition quality_flags :: "dataset \<Rightarrow> string \<rightharpoonup> ndarray" where
  "quality_flags ds param =
     (if param \<in> set qc_params then variables ds (param @ ''_QC'') else None)"

text \<open>One pass of the inner loop: the value of one array at level \<open>i\<close>.\<close>

definition level_value :: "pylib \<Rightarrow> ndarray \<Rightarrow> nat \<Rightarrow> py_exn + pyval" where
  "level_value lib var_data i =
     bnd (np_len var_data) (\<lambda>n.
       if i < n
       then bnd (np_index var_data i) (\<lambda>v.
            bnd (np_isnan v) (\<lambda>nan.
            if nan then Inr PyNone
            else bnd (np_isinf v) (\<lambda>inf.
              if inf then Inr PyNone
              else bnd (py_float lib v) (\<lambda>f. Inr (PyFloat f)))))
       else Inr PyNone)"

fun level_values :: "pylib \<Rightarrow> (string \<times> ndarray) list \<Rightarrow> nat \<Rightarrow> pydict \<Rightarrow> py_exn + pydict" where
  "level_values lib [] i m = Inr m"
| "level_values lib ((var_name, var_data) # rest) i m =
     bnd (level_value lib var_data i) (\<lambda>v. level_values lib rest i (m(var_name \<mapsto> v)))"

text \<open>\<open>measurement.get('pressure') is not None\<close>, then the copy into \<open>depth\<close>.\<close>

definition set_depth :: "pydict \<Rightarrow> pydict" where
  "set_depth m =
     (case m ''pressure'' of
        None \<Rightarrow> m
      | Some PyNone \<Rightarrow> m
      | Some p \<Rightarrow> m(''depth'' \<mapsto> p))"

text \<open>The quality flag of level \<open>i\<close>: the inner \<open>try\<close> catches ValueError and TypeError
  only, any other exception of \<open>int\<close> leaves the loop.\<close>

definition qc_flag_of :: "pylib \<Rightarrow> (string \<rightharpoonup> ndarray) \<Rightarrow> nat \<Rightarrow> py_exn + int" where
  "qc_flag_of lib qf i =
     (case qf ''PRES'' of
        None \<Rightarrow> Inr 1
      | Some a \<Rightarrow>
          bnd (np_len a) (\<lambda>n.
            if i < n
            then (case bnd (np_index a i) (py_int lib) of
                    Inl ValueError \<Rightarrow> Inr 1
                  | Inl TypeError \<Rightarrow> Inr 1
                  | Inl e \<Rightarrow> Inl e
                  | Inr q \<Rightarrow> Inr q)
            else Inr 1))"

definition build_measurement ::
  "pylib \<Rightarrow> (string \<times> ndarray) list \<Rightarrow> (string \<rightharpoonup> ndarray) \<Rightarrow> nat \<Rightarrow> py_exn + pydict" where
  "build_measurement lib vars qf i =
     bnd (level_values lib vars i Map.empty) (\<lambda>m.
     bnd (qc_flag_of lib qf i) (\<lambda>qc_flag.
       Inr ((set_depth m)(''quality_flag'' \<mapsto> PyInt qc_flag))))"

text \<open>The loop \<open>for i in range(n_levels)\<close>, over the list of the indices still to do.\<close>

fun build_measurements ::
  "pylib \<Rightarrow> validator \<Rightarrow> (string \<times> ndarray) list \<Rightarrow> (string \<rightharpoonup> ndarray) \<Rightarrow> nat list
     \<Rightarrow> py_exn + pydict list" where
  "build_measurements lib validate vars qf [] = Inr []"
| "build_measurements lib validate vars qf (i # is) =
     bnd (build_measurement lib vars qf i) (\<lambda>m.
     bnd (validate m) (\<lambda>ok.
     bnd (build_measurements lib validate vars qf is) (\<lambda>rest.
       Inr (if ok then m # rest else rest))))"

definition extract_measurements_body :: "pylib \<Rightarrow> validator \<Rightarrow> dataset \<Rightarrow> py_exn + pydict list" where
  "extract_measurements_body lib validate ds =
     bnd (n_levels_of ds) (\<lambda>nl.
       case nl of
         None \<Rightarrow> Inr []
       | Some n_levels \<Rightarrow>
           (case measurement_arrays ds of
              None \<Rightarrow> Inr []
            | Some vars \<Rightarrow>
                build_measurements lib validate vars (quality_flags ds) [0..<n_levels]))"

text \<open>\<open>except Exception: return []\<close>.\<close>

definition extract_measurements :: "pylib \<Rightarrow> validator \<Rightarrow> dataset \<Rightarrow> pydict list" where
  "extract_measurements lib validate ds =
     (case extract_measurements_body lib validate ds of Inl e \<Rightarrow> [] | Inr ms \<Rightarrow> ms)"

subsection \<open>process_file\<close>

definition process_file ::
  "pylib \<Rightarrow> validator \<Rightarrow> (string \<Rightarrow> string) \<Rightarrow> int \<Rightarrow> filesystem \<Rightarrow> string
     \<Rightarrow> py_exn + (pydict \<times> pydict list)" where
  "process_file lib validate md5 now fs file_path =
     (if \<not> validate_file fs file_path then Inl ValueError
      else let file_hash = calculate_file_hash md5 fs file_path
           in case fs file_path of
                None \<Rightarrow> Inl OSError
              | Some f \<Rightarrow>
                  bnd (opened f) (\<lambda>ds.
                    let profile_metadata =
                          (extract_profile_metadata lib now ds)(''file_hash'' \<mapsto> PyStr file_hash);
                        measurements = extract_measurements lib validate ds
                    in Inr (profile_metadata, measurements)))"

section \<open>DatabaseManager\<close>

subsection \<open>The relational store\<close>

text \<open>
  The PostgreSQL tables \<open>argo_profiles\<close> and \<open>argo_measurements\<close> of \<open>_initialize_schema\<close>,
  in insertion order, with the two \<open>SERIAL\<close> sequences and the state of the connection.
  A row keeps its column values under the column names; \<open>PyNone\<close> is SQL \<open>NULL\<close>.
\<close>

record profile_row =
  p_id :: nat
  p_cols :: pydict

record measurement_row =
  m_id :: nat
  m_profile_id :: "nat option"
  m_cols :: pydict

record store =
  connected :: bool
  profiles :: "profile_row list"
  measurements :: "measurement_row list"
  next_profile_id :: nat
  next_measurement_id :: nat

text \<open>A new database: no rows, both sequences at 1.\<close>

definition empty_store :: store where
  "empty_store =
     \<lparr>connected = True, profiles = [], measurements = [],
      next_profile_id = 1, next_measurement_id = 1\<rparr>"

definition profile_keys :: "string list" where
  "profile_keys =
     [''float_id'', ''cycle_number'', ''latitude'', ''longitude'', ''measurement_date'',
      ''platform_number'', ''data_center'', ''file_hash'']"

definition measurement_keys :: "string list" where
  "measurement_keys =
     [''profile_id'', ''pressure'', ''temperature'', ''salinity'', ''depth'', ''oxygen'',
      ''nitrate'', ''ph'', ''chlorophyll'', ''quality_flag'']"

definition has_keys :: "string list \<Rightarrow> pydict \<Rightarrow> bool" where
  "has_keys ks d = list_all (\<lambda>k. d k \<noteq> None) ks"

text \<open>A text value fits a \<open>VARCHAR(n)\<close> column when it has at most \<open>n\<close> characters.\<close>

definition varchar_fits :: "nat \<Rightarrow> pyval option \<Rightarrow> bool" where
  "varchar_fits n v = (case v of Some (PyStr s) \<Rightarrow> length s \<le> n | _ \<Rightarrow> True)"

definition profile_fits :: "pydict \<Rightarrow> bool" where
  "profile_fits d =
     (varchar_fits 50 (d ''float_id'') \<and> varchar_fits 50 (d ''platform_number'') \<and>
      varchar_fits 10 (d ''data_center'') \<and> varchar_fits 64 (d ''file_hash''))"

text \<open>The messages of the two integrity errors the table can raise.\<close>

definition unique_violation_msg :: string where
  "unique_violation_msg =
     ''duplicate key value violates unique constraint argo_profiles_file_hash_key''"

definition not_null_violation_msg :: string where
  "not_null_violation_msg = ''null value in column float_id violates not-null constraint''"

definition foreign_key_violation_msg :: string where
  "foreign_key_violation_msg =
     ''insert or update on table argo_measurements violates foreign key constraint''"

text \<open>The rows whose \<open>file_hash\<close> equals a value; \<open>NULL\<close> equals nothing.\<close>

definition hash_matches :: "pyval \<Rightarrow> profile_row \<Rightarrow> bool" where
  "hash_matches h r = (h \<noteq> PyNone \<and> p_cols r ''file_hash'' = Some h)"

text \<open>
  \<open>INSERT INTO argo_profiles ... RETURNING id\<close> with a dictionary of parameters. The
  driver raises KeyError for a missing parameter before anything is sent. The server
  draws the \<open>id\<close> from the sequence, then checks \<open>NOT NULL\<close> and \<open>UNIQUE\<close>: a rejected row
  consumes a sequence value and leaves the table as it was. Range errors of the numeric
  columns are not modelled.
\<close>

definition pg_insert_profile :: "store \<Rightarrow> pydict \<Rightarrow> (py_exn + nat) \<times> store" where
  "pg_insert_profile st d =
     (if \<not> connected st then (Inl OperationalError, st)
      else if \<not> has_keys profile_keys d then (Inl KeyError, st)
      else if \<not> profile_fits d then (Inl DataError, st)
      else let new_id = next_profile_id st;
               st1 = st\<lparr>next_profile_id := new_id + 1\<rparr>
           in if d ''float_id'' = Some PyNone
              then (Inl (IntegrityError not_null_violation_msg), st1)
              else if (case d ''file_hash'' of
                         None \<Rightarrow> False
                       | Some h \<Rightarrow> list_ex (hash_matches h) (profiles st))
              then (Inl (IntegrityError unique_violation_msg), st1)
              else (Inr new_id,
                    st1\<lparr>profiles := profiles st @
                      [\<lparr>p_id = new_id, p_cols = d |` set profile_keys\<rparr>]\<rparr>))"

subsection \<open>get_profile_id_by_hash\<close>

text \<open>\<open>SELECT id FROM argo_profiles WHERE file_hash = %s\<close> and \<open>fetchone\<close>; any exception
  is answered with \<open>None\<close>.\<close>

definition get_profile_id_by_hash :: "store \<Rightarrow> pyval \<Rightarrow> nat option" where
  "get_profile_id_by_hash st file_hash =
     (if \<not> connected st then None
      else (case filter (hash_matches file_hash) (profiles st) of
              [] \<Rightarrow> None
            | r # rs \<Rightarrow> Some (p_id r)))"

subsection \<open>insert_profile\<close>

text \<open>\<open>"file_hash" in str(e)\<close> is a substring test on the message.\<close>

definition insert_profile :: "store \<Rightarrow> pydict \<Rightarrow> (py_exn + nat option) \<times> store" where
  "insert_profile st profile_data =
     (case pg_insert_profile st profile_data of
        (Inr profile_id, st1) \<Rightarrow> (Inr (Some profile_id), st1)
      | (Inl (IntegrityError msg), st1) \<Rightarrow>
          if sublist ''file_hash'' msg
          then (case profile_data ''file_hash'' of
                  None \<Rightarrow> (Inl KeyError, st1)
                | Some h \<Rightarrow> (Inr (get_profile_id_by_hash st1 h), st1))
          else (Inl (IntegrityError msg), st1)
      | (Inl e, st1) \<Rightarrow> (Inl e, st1))"

subsection \<open>insert_measurements\<close>

text \<open>
  Every measurement gets the key \<open>profile_id\<close>, then \<open>executemany\<close> runs the \<open>INSERT\<close> once
  per measurement. The connection commits each statement on its own, so the rows inserted
  before a failing one stay.
\<close>

definition profile_id_val :: "nat option \<Rightarrow> pyval" where
  "profile_id_val p = (case p of None \<Rightarrow> PyNone | Some n \<Rightarrow> PyInt (int n))"

fun pg_insert_measurement_rows :: "store \<Rightarrow> nat option \<Rightarrow> pydict list \<Rightarrow> (py_exn + unit) \<times> store" where
  "pg_insert_measurement_rows st profile_id [] = (Inr (), st)"
| "pg_insert_measurement_rows st profile_id (m # ms) =
     (if \<not> has_keys measurement_keys m then (Inl KeyError, st)
      else let new_id = next_measurement_id st;
               st1 = st\<lparr>next_measurement_id := new_id + 1\<rparr>
           in if (case profile_id of
                    None \<Rightarrow> False
                  | Some p \<Rightarrow> \<not> list_ex (\<lambda>r. p_id r = p) (profiles st))
              then (Inl (IntegrityError foreign_key_violation_msg), st1)
              else pg_insert_measurement_rows
                     (st1\<lparr>measurements := measurements st @
                        [\<lparr>m_id = new_id, m_profile_id = profile_id,
                          m_cols = m |` set measurement_keys\<rparr>]\<rparr>)
                     profile_id ms)"

definition insert_measurements :: "store \<Rightarrow> nat option \<Rightarrow> pydict list \<Rightarrow> (py_exn + unit) \<times> store" where
  "insert_measurements st profile_id ms =
     (if \<not> connected st then (Inl OperationalError, st)
      else pg_insert_measurement_rows st profile_id
             (map (\<lambda>m. m(''profile_id'' \<mapsto> profile_id_val profile_id)) ms))"

section \<open>The ingestion page\<close>

text \<open>
  \<open>DataTransformer\<close> and \<open>FAISSManager\<close> are not among the sources. What
  \<open>store_data_in_database\<close> does with them is a parameter: \<open>clean\<close> is
  \<open>clean_measurements\<close>, \<open>interpolate_missing_depth\<close> and the conversion back to a list of
  records; \<open>index_profile\<close> is \<open>create_profile_summary\<close>, \<open>add_profile\<close> and \<open>save_index\<close> on
  the state \<open>'v\<close> of the vector store, returning the exception raised, if any.
\<close>

record 'v collaborators =
  clean :: "pydict list \<Rightarrow> py_exn + pydict list"
  index_profile :: "'v \<Rightarrow> pydict list \<Rightarrow> pydict \<Rightarrow> nat option \<Rightarrow> py_exn option \<times> 'v"

definition store_data_in_database ::
  "'v collaborators \<Rightarrow> store \<times> 'v \<Rightarrow> pydict \<Rightarrow> pydict list
     \<Rightarrow> (py_exn + nat option) \<times> store \<times> 'v" where
  "store_data_in_database co sv profile_metadata ms =
     (let (st, vs) = sv in
      case insert_profile st profile_metadata of
        (Inl e, st1) \<Rightarrow> (Inl e, st1, vs)
      | (Inr profile_id, st1) \<Rightarrow>
          if ms \<noteq> []
          then (case clean co ms of
                  Inl e \<Rightarrow> (Inl e, st1, vs)
                | Inr clean_measurements_list \<Rightarrow>
                    (case insert_measurements st1 profile_id clean_measurements_list of
                       (Inl e, st2) \<Rightarrow> (Inl e, st2, vs)
                     | (Inr u, st2) \<Rightarrow>
                         (case index_profile co vs clean_measurements_list profile_metadata profile_id of
                            (Some e, vs1) \<Rightarrow> (Inl e, st2, vs1)
                          | (None, vs1) \<Rightarrow> (Inr profile_id, st2, vs1))))
          else (Inr profile_id, st1, vs))"

text \<open>
  \<open>process_uploaded_file\<close> writes the upload to a temporary file whose name ends in
  \<open>.nc\<close> and runs \<open>process_file\<close> on it.
\<close>

definition process_uploaded_file ::
  "pylib \<Rightarrow> validator \<Rightarrow> (string \<Rightarrow> string) \<Rightarrow> int \<Rightarrow> string \<Rightarrow> fnode
     \<Rightarrow> py_exn + (pydict \<times> pydict list)" where
  "process_uploaded_file lib validate md5 now tmp_name uploaded_file =
     (let tmp_file_path = tmp_name @ ''.nc''
      in process_file lib validate md5 now [tmp_file_path \<mapsto> uploaded_file] tmp_file_path)"

text \<open>The result recorded for one file by the loop of \<open>main\<close>.\<close>

datatype ingest_result =
    Skipped nat
  | Success "nat option"
  | Error py_exn

text \<open>The part of the loop body after \<open>process_uploaded_file\<close>: the duplicate check
  under the option \<open>skip_duplicates\<close>, then \<open>store_data_in_database\<close>.\<close>

definition ingest_processed ::
  "'v collaborators \<Rightarrow> bool \<Rightarrow> store \<times> 'v \<Rightarrow> pydict \<times> pydict list
     \<Rightarrow> ingest_result \<times> store \<times> 'v" where
  "ingest_processed co skip_duplicates sv pm =
     (let (st, vs) = sv; (profile_metadata, ms) = pm;
          existing_profile =
            (if skip_duplicates
             then (case profile_metadata ''file_hash'' of
                     None \<Rightarrow> Inl KeyError
                   | Some h \<Rightarrow> Inr (get_profile_id_by_hash st h))
             else Inr None)
      in case existing_profile of
           Inl e \<Rightarrow> (Error e, st, vs)
         | Inr (Some p) \<Rightarrow>
             if p \<noteq> 0 then (Skipped p, st, vs)
             else (case store_data_in_database co (st, vs) profile_metadata ms of
                     (Inl e, sv1) \<Rightarrow> (Error e, sv1)
                   | (Inr profile_id, sv1) \<Rightarrow> (Success profile_id, sv1))
         | Inr None \<Rightarrow>
             (case store_data_in_database co (st, vs) profile_metadata ms of
                (Inl e, sv1) \<Rightarrow> (Error e, sv1)
              | (Inr profile_id, sv1) \<Rightarrow> (Success profile_id, sv1)))"

definition ingest_file ::
  "pylib \<Rightarrow> validator \<Rightarrow> (string \<Rightarrow> string) \<Rightarrow> int \<Rightarrow> 'v collaborators \<Rightarrow> bool
     \<Rightarrow> store \<times> 'v \<Rightarrow> string \<Rightarrow> fnode \<Rightarrow> ingest_result \<times> store \<times> 'v" where
  "ingest_file lib validate md5 now co skip_duplicates sv tmp_name uploaded_file =
     (case process_uploaded_file lib validate md5 now tmp_name uploaded_file of
        Inl e \<Rightarrow> (Error e, sv)
      | Inr pm \<Rightarrow> ingest_processed co skip_duplicates sv pm)"

section \<open>Sample inputs\<close>

text \<open>Concrete values at which the properties below are evaluated.\<close>

definition digits_value :: "string \<Rightarrow> int option" where
  "digits_value s =
     (if s \<noteq> [] \<and> list_all (\<lambda>c. c \<in> set ''0123456789'') s
      then Some (foldl (\<lambda>a c. 10 * a + int (length (takeWhile (\<lambda>d. d \<noteq> c) ''0123456789''))) 0 s)
      else None)"

definition sample_lib :: pylib where
  "sample_lib =
     \<lparr>lit_int = digits_value, lit_float = (\<lambda>s. None),
      to_str = (\<lambda>v. case v of PyStr s \<Rightarrow> s | _ \<Rightarrow> [])\<rparr>"

definition sample_md5 :: "string \<Rightarrow> string" where
  "sample_md5 bs = ''digest-of-'' @ bs"

definition accept_all :: validator where
  "accept_all m = Inr True"

definition pres_only_ds :: dataset where
  "pres_only_ds = \<lparr>dims = Map.empty, variables = [''PRES'' \<mapsto> Vec [PyFloat (Fin 5)]]\<rparr>"

definition finite_or_absent :: "pyval option \<Rightarrow> bool" where
  "finite_or_absent v =
     (case v of
        None \<Rightarrow> True
      | Some PyNone \<Rightarrow> True
      | Some (PyFloat (Fin r)) \<Rightarrow> True
      | Some w \<Rightarrow> False)"

definition claimed_flag :: "pylib \<Rightarrow> (string \<rightharpoonup> ndarray) \<Rightarrow> nat \<Rightarrow> int" where
  "claimed_flag lib qf i =
     (case qf ''PRES'' of
        Some (Vec xs) \<Rightarrow>
          if i < length xs
          then (case py_int lib (xs ! i) of Inr q \<Rightarrow> q | Inl e \<Rightarrow> 1)
          else 1
      | _ \<Rightarrow> 1)"

definition sample_ds :: dataset where
  "sample_ds =
     \<lparr>dims = [''N_LEVELS'' \<mapsto> 3],
      variables =
        [''PRES'' \<mapsto> Vec [PyFloat (Fin 5), PyFloat NaN, PyFloat (Fin 20)],
         ''TEMP'' \<mapsto> Vec [PyFloat (Fin 20), PyFloat (Fin 19), PyFloat PosInf],
         ''PSAL'' \<mapsto> Vec [PyFloat (Fin 35), PyFloat (Fin 35)],
         ''PRES_QC'' \<mapsto> Vec [PyStr ''4'', PyStr '' '']]\<rparr>"

definition inf_qc_ds :: dataset where
  "inf_qc_ds =
     \<lparr>dims = Map.empty,
      variables =
        [''PRES'' \<mapsto> Vec [PyFloat (Fin 5)],
         ''TEMP'' \<mapsto> Vec [PyFloat (Fin 20)],
         ''PSAL'' \<mapsto> Vec [PyFloat (Fin 35)],
         ''PRES_QC'' \<mapsto> Vec [PyFloat PosInf]]\<rparr>"

definition inf_juld_ds :: dataset where
  "inf_juld_ds = \<lparr>dims = Map.empty, variables = [''JULD'' \<mapsto> Vec [PyFloat PosInf]]\<rparr>"

text \<open>A store as the schema makes it: the identifiers come from a \<open>SERIAL\<close> sequence that
  starts at 1, so every row's identifier is positive and below the sequence's next value.\<close>

definition wf_store :: "store \<Rightarrow> bool" where
  "wf_store st =
     (0 < next_profile_id st \<and>
      list_all (\<lambda>r. 0 < p_id r \<and> p_id r < next_profile_id st) (profiles st))"

definition sample_profile :: pydict where
  "sample_profile =
     [''float_id'' \<mapsto> PyStr ''1901234'', ''cycle_number'' \<mapsto> PyInt 7,
      ''latitude'' \<mapsto> PyFloat (Fin 10), ''longitude'' \<mapsto> PyFloat (Fin 60),
      ''measurement_date'' \<mapsto> PyTime 0, ''platform_number'' \<mapsto> PyStr ''1901234'',
      ''data_center'' \<mapsto> PyStr ''IN'', ''file_hash'' \<mapsto> PyStr ''abc'']"

definition one_profile_store :: store where
  "one_profile_store =
     \<lparr>connected = True, profiles = [\<lparr>p_id = 1, p_cols = sample_profile\<rparr>],
      measurements = [], next_profile_id = 2, next_measurement_id = 1\<rparr>"

text \<open>An upload with every array the pipeline reads, one level deep. The cleaning step
  returns the records as they are; the vector store is the list of the identifiers indexed.\<close>

definition full_ds :: dataset where
  "full_ds =
     \<lparr>dims = Map.empty,
      variables =
        [''PLATFORM_NUMBER'' \<mapsto> Vec [PyStr ''1901234''],
         ''CYCLE_NUMBER'' \<mapsto> Vec [PyInt 7],
         ''LATITUDE'' \<mapsto> Vec [PyFloat (Fin 10)],
         ''LONGITUDE'' \<mapsto> Vec [PyFloat (Fin 60)],
         ''JULD'' \<mapsto> Vec [PyFloat (Fin 100)],
         ''DATA_CENTRE'' \<mapsto> Vec [PyStr ''IN''],
         ''PRES'' \<mapsto> Vec [PyFloat (Fin 5)],
         ''TEMP'' \<mapsto> Vec [PyFloat (Fin 20)],
         ''PSAL'' \<mapsto> Vec [PyFloat (Fin 35)],
         ''DOXY'' \<mapsto> Vec [PyFloat (Fin 200)],
         ''NITRATE'' \<mapsto> Vec [PyFloat (Fin 2)],
         ''PH_IN_SITU_TOTAL'' \<mapsto> Vec [PyFloat (Fin 8)],
         ''CHLA'' \<mapsto> Vec [PyFloat (Fin 1)]]\<rparr>"

definition sample_upload :: fnode where
  "sample_upload = \<lparr>content = Some ''argo-bytes'', opened = Inr full_ds\<rparr>"

definition sample_co :: "nat option list collaborators" where
  "sample_co =
     \<lparr>clean = (\<lambda>ms. Inr ms),
      index_profile = (\<lambda>vs ms md profile_id. (None, vs @ [profile_id]))\<rparr>"

definition sample_metadata :: pydict where
  "sample_metadata =
     [''platform_number'' \<mapsto> PyStr ''1901234'', ''float_id'' \<mapsto> PyStr ''1901234'',
      ''cycle_number'' \<mapsto> PyInt 7, ''latitude'' \<mapsto> PyFloat (Fin 10),
      ''longitude'' \<mapsto> PyFloat (Fin 60),
      ''measurement_date'' \<mapsto> PyTime (- 7205 * ns_per_day),
      ''data_center'' \<mapsto> PyStr ''IN'',
      ''file_hash'' \<mapsto> PyStr ''digest-of-argo-bytes'']"

definition sample_measurement :: pydict where
  "sample_measurement =
     [''pressure'' \<mapsto> PyFloat (Fin 5), ''temperature'' \<mapsto> PyFloat (Fin 20),
      ''salinity'' \<mapsto> PyFloat (Fin 35), ''oxygen'' \<mapsto> PyFloat (Fin 200),
      ''nitrate'' \<mapsto> PyFloat (Fin 2), ''ph'' \<mapsto> PyFloat (Fin 8),
      ''chlorophyll'' \<mapsto> PyFloat (Fin 1), ''depth'' \<mapsto> PyFloat (Fin 5),
      ''quality_flag'' \<mapsto> PyInt 1]"

text \<open>The same upload ingested twice into a new database: the first run with the option
  \<open>skip_duplicates\<close> off, the second run with the option as given.\<close>

definition first_run :: "ingest_result \<times> store \<times> nat option list" where
  "first_run =
     ingest_file sample_lib accept_all sample_md5 0 sample_co False (empty_store, [])
       ''tmp1'' sample_upload"

definition second_run :: "bool \<Rightarrow> ingest_result \<times> store \<times> nat option list" where
  "second_run skip_duplicates =
     ingest_file sample_lib accept_all sample_md5 0 sample_co skip_duplicates (snd first_run)
       ''tmp2'' sample_upload"

section \<open>Properties\<close>

subsection \<open>Auxiliary facts\<close>

lemma bnd_Inl [simp]: "bnd (Inl e) f = Inl e"
  by (simp add: bnd_def)

lemma bnd_Inr [simp]: "bnd (Inr x) f = f x"
  by (simp add: bnd_def)

lemma bnd_eq_Inr: "bnd r f = Inr y \<longleftrightarrow> (\<exists>x. r = Inr x \<and> f x = Inr y)"
  by (cases r) simp_all

declare chunks.simps [simp del]

lemma concat_chunks: "0 < n \<Longrightarrow> concat (chunks n xs) = xs"
proof (induction n xs rule: chunks.induct)
  case (1 n xs)
  show ?case
  proof (cases "xs = []")
    case True
    then show ?thesis by (simp add: chunks.simps)
  next
    case False
    with 1 have "concat (chunks n (drop n xs)) = drop n xs" by simp
    with False 1(2) show ?thesis
      by (subst chunks.simps) simp
  qed
qed

lemma foldl_hash_update: "foldl hash_update acc cs = acc @ concat cs"
  by (induction cs arbitrary: acc) (simp_all add: hash_update_def)

text \<open>Reading in chunks hashes the whole content: a readable file's digest is the
  digest of its bytes.\<close>

lemma calculate_file_hash_readable:
  "fs p = Some f \<Longrightarrow> content f = Some bs \<Longrightarrow> calculate_file_hash md5 fs p = md5 bs"
  by (simp add: calculate_file_hash_def foldl_hash_update concat_chunks)

text \<open>What \<open>validate_file\<close> accepts: an existing file with an accepted extension that
  opens and holds at least one of the three arrays.\<close>

lemma validate_file_iff:
  "validate_file fs p \<longleftrightarrow>
     (\<exists>f ds. fs p = Some f \<and> lower (splitext_ext p) \<in> set supported_formats \<and>
        opened f = Inr ds \<and>
        (variables ds ''PRES'' \<noteq> None \<or> variables ds ''TEMP'' \<noteq> None \<or>
         variables ds ''PSAL'' \<noteq> None))"
  by (auto simp: validate_file_def validate_file_body_def required_variables_def bnd_def
      split: option.splits sum.splits)

lemma process_file_hash:
  "process_file lib validate md5 now fs p = Inr (md, ms) \<Longrightarrow>
     md ''file_hash'' = Some (PyStr (calculate_file_hash md5 fs p))"
  by (auto simp: process_file_def Let_def bnd_eq_Inr split: if_splits option.splits)

lemma ext_p_nc: "lower (splitext_ext ''p.nc'') = ''.nc''"
  by (simp add: splitext_ext_def basename_def lower_def lower_char_def)

lemma ext_p_txt: "lower (splitext_ext ''p.txt'') = ''.txt''"
  by (simp add: splitext_ext_def basename_def lower_def lower_char_def)

subsection \<open>validate_file\<close>

text \<open>
  Claim C9. For every path \<open>validate_file\<close> returns a truth value and never raises: a
  path that does not exist, an extension outside the accepted set, a failure of
  \<open>xr.open_dataset\<close>, and any exception at all inside the body give \<open>False\<close>.
\<close>

theorem validate_file_never_raises:
  "(fs p = None \<longrightarrow> validate_file fs p = False) \<and>
   (lower (splitext_ext p) \<notin> set supported_formats \<longrightarrow> validate_file fs p = False) \<and>
   (\<forall>f e. fs p = Some f \<and> opened f = Inl e \<longrightarrow> validate_file fs p = False) \<and>
   (\<forall>e. validate_file_body fs p = Inl e \<longrightarrow> validate_file fs p = False)"
  by (auto simp: validate_file_def validate_file_body_def split: option.splits sum.splits)

theorem validate_file_never_raises_witness:
  "validate_file Map.empty ''p.nc'' = False \<and>
   validate_file [''p.txt'' \<mapsto> \<lparr>content = Some [], opened = Inr pres_only_ds\<rparr>] ''p.txt'' = False \<and>
   validate_file [''p.nc'' \<mapsto> \<lparr>content = Some [], opened = Inl OSError\<rparr>] ''p.nc'' = False"
proof -
  let ?g = "\<lparr>content = Some [], opened = Inr pres_only_ds\<rparr>"
  let ?h = "\<lparr>content = Some [], opened = Inl OSError\<rparr>"
  have a: "validate_file Map.empty ''p.nc'' = False"
    using validate_file_never_raises [of Map.empty "''p.nc''"] by simp
  have "lower (splitext_ext ''p.txt'') \<notin> set supported_formats"
    by (simp add: ext_p_txt supported_formats_def)
  with validate_file_never_raises [of "[''p.txt'' \<mapsto> ?g]" "''p.txt''"]
  have b: "validate_file [''p.txt'' \<mapsto> ?g] ''p.txt'' = False" by blast
  have "[''p.nc'' \<mapsto> ?h] ''p.nc'' = Some ?h \<and> opened ?h = Inl OSError" by simp
  with validate_file_never_raises [of "[''p.nc'' \<mapsto> ?h]" "''p.nc''"]
  have c: "validate_file [''p.nc'' \<mapsto> ?h] ''p.nc'' = False" by blast
  from a b c show ?thesis by blast
qed

text \<open>
  Claim C3. The claim says that a file lacking any one of the pressure, temperature and
  salinity arrays is rejected. \<open>validate_file\<close> tests \<open>any\<close> of the three: a file that
  holds the pressure array alone is accepted.
\<close>

theorem validate_file_accepts_pres_only:
  "validate_file [''p.nc'' \<mapsto> \<lparr>content = Some [], opened = Inr pres_only_ds\<rparr>] ''p.nc'' = True \<and>
   variables pres_only_ds ''TEMP'' = None \<and> variables pres_only_ds ''PSAL'' = None"
  by (simp add: validate_file_iff ext_p_nc supported_formats_def pres_only_ds_def)

subsection \<open>calculate_file_hash\<close>

text \<open>
  Claim C10. When the bytes of a file cannot be read, \<open>calculate_file_hash\<close> returns the
  empty string instead of raising, and \<open>process_file\<close> then stores the empty string as
  the \<open>file_hash\<close> of the profile.
\<close>

theorem calculate_file_hash_unreadable:
  "(fs p = None \<longrightarrow> calculate_file_hash md5 fs p = []) \<and>
   (\<forall>f. fs p = Some f \<and> content f = None \<longrightarrow> calculate_file_hash md5 fs p = []) \<and>
   (\<forall>f md ms. fs p = Some f \<and> content f = None \<and>
      process_file lib validate md5 now fs p = Inr (md, ms) \<longrightarrow>
      md ''file_hash'' = Some (PyStr []))"
proof -
  have a: "fs p = None \<longrightarrow> calculate_file_hash md5 fs p = []"
    by (simp add: calculate_file_hash_def)
  have b: "\<forall>f. fs p = Some f \<and> content f = None \<longrightarrow> calculate_file_hash md5 fs p = []"
    by (simp add: calculate_file_hash_def)
  have c: "\<forall>f md ms. fs p = Some f \<and> content f = None \<and>
      process_file lib validate md5 now fs p = Inr (md, ms) \<longrightarrow>
      md ''file_hash'' = Some (PyStr [])"
    using b process_file_hash by fastforce
  from a b c show ?thesis by blast
qed

theorem calculate_file_hash_unreadable_witness:
  "calculate_file_hash sample_md5
     [''p.nc'' \<mapsto> \<lparr>content = None, opened = Inr pres_only_ds\<rparr>] ''p.nc'' = [] \<and>
   (\<exists>md ms. process_file sample_lib accept_all sample_md5 0
        [''p.nc'' \<mapsto> \<lparr>content = None, opened = Inr pres_only_ds\<rparr>] ''p.nc'' = Inr (md, ms) \<and>
      md ''file_hash'' = Some (PyStr []))"
proof -
  let ?f = "\<lparr>content = None, opened = Inr pres_only_ds\<rparr>"
  let ?fs = "[''p.nc'' \<mapsto> ?f]"
  have v: "validate_file ?fs ''p.nc''"
    by (simp add: validate_file_iff ext_p_nc supported_formats_def pres_only_ds_def)
  obtain md ms where pm:
    "process_file sample_lib accept_all sample_md5 0 ?fs ''p.nc'' = Inr (md, ms)"
    using v by (simp add: process_file_def Let_def)
  have fsp: "?fs ''p.nc'' = Some ?f" by simp
  have cn: "content ?f = None" by simp
  from calculate_file_hash_unreadable [of ?fs "''p.nc''" sample_md5 sample_lib accept_all 0]
  have h1: "calculate_file_hash sample_md5 ?fs ''p.nc'' = []"
    and h2: "md ''file_hash'' = Some (PyStr [])"
    using fsp cn pm by blast+
  from h1 h2 pm show ?thesis by blast
qed

lemma finite_or_absent_simps [simp]:
  "finite_or_absent None" "finite_or_absent (Some PyNone)"
  "finite_or_absent (Some (PyFloat (Fin r)))"
  "\<not> finite_or_absent (Some (PyFloat NaN))"
  "\<not> finite_or_absent (Some (PyFloat PosInf))"
  "\<not> finite_or_absent (Some (PyFloat NegInf))"
  by (simp_all add: finite_or_absent_def)

lemma element_finite:
  assumes "bnd (np_isnan v) (\<lambda>nan.
            if nan then Inr PyNone
            else bnd (np_isinf v) (\<lambda>inf.
              if inf then Inr PyNone
              else bnd (py_float lib v) (\<lambda>f. Inr (PyFloat f)))) = Inr w"
  shows "w = PyNone \<or> (\<exists>r. w = PyFloat (Fin r))"
proof (cases v)
  case (PyFloat f)
  with assms show ?thesis by (cases f) (auto split: if_splits)
qed (use assms in \<open>auto split: if_splits\<close>)

lemma level_value_finite:
  assumes "level_value lib a i = Inr w"
  shows "w = PyNone \<or> (\<exists>r. w = PyFloat (Fin r))"
proof (cases a)
  case (Scalar v)
  with assms show ?thesis by (simp add: level_value_def)
next
  case (Vec xs)
  show ?thesis
  proof (cases "i < length xs")
    case True
    with assms Vec show ?thesis
      by (auto simp: level_value_def dest: element_finite)
  next
    case False
    with assms Vec show ?thesis by (simp add: level_value_def)
  qed
qed

lemma level_values_finite:
  "level_values lib vars i m = Inr m' \<Longrightarrow> (\<And>k. finite_or_absent (m k)) \<Longrightarrow>
     finite_or_absent (m' k)"
proof (induction vars arbitrary: m)
  case Nil
  then show ?case by simp
next
  case (Cons a vars)
  obtain name dat where a: "a = (name, dat)" by (cases a)
  from Cons.prems(1) a obtain v where v: "level_value lib dat i = Inr v"
    and rest: "level_values lib vars i (m(name \<mapsto> v)) = Inr m'"
    by (auto simp: bnd_eq_Inr)
  from level_value_finite [OF v] have "finite_or_absent (Some v)" by auto
  with Cons.prems(2) have "\<And>k. finite_or_absent ((m(name \<mapsto> v)) k)" by simp
  with Cons.IH [OF rest] show ?case by blast
qed

lemma level_values_other:
  "level_values lib vars i m = Inr m' \<Longrightarrow> k \<notin> fst ` set vars \<Longrightarrow> m' k = m k"
proof (induction vars arbitrary: m)
  case Nil
  then show ?case by simp
next
  case (Cons a vars)
  obtain name dat where a: "a = (name, dat)" by (cases a)
  from Cons.prems(1) a obtain v where
    rest: "level_values lib vars i (m(name \<mapsto> v)) = Inr m'"
    by (auto simp: bnd_eq_Inr)
  from Cons.prems(2) a have "k \<noteq> name" "k \<notin> fst ` set vars" by auto
  with Cons.IH [OF rest] show ?case by simp
qed

lemma level_values_present:
  "level_values lib vars i m = Inr m' \<Longrightarrow> k \<in> fst ` set vars \<or> m k \<noteq> None \<Longrightarrow> m' k \<noteq> None"
proof (induction vars arbitrary: m)
  case Nil
  then show ?case by simp
next
  case (Cons a vars)
  obtain name dat where a: "a = (name, dat)" by (cases a)
  from Cons.prems(1) a obtain v where
    rest: "level_values lib vars i (m(name \<mapsto> v)) = Inr m'"
    by (auto simp: bnd_eq_Inr)
  from Cons.prems(2) a have "k \<in> fst ` set vars \<or> (m(name \<mapsto> v)) k \<noteq> None" by auto
  with Cons.IH [OF rest] show ?case by blast
qed

lemma measurement_arrays_keys:
  assumes "measurement_arrays ds = Some vars"
  shows "''depth'' \<notin> fst ` set vars" and "''quality_flag'' \<notin> fst ` set vars"
    and "''pressure'' \<in> fst ` set vars"
  using assms
  by (auto simp: measurement_arrays_def optional_variables_def split: option.splits)

lemma set_depth_other: "k \<noteq> ''depth'' \<Longrightarrow> set_depth m k = m k"
  by (auto simp: set_depth_def split: option.splits pyval.splits)

lemma set_depth_depth:
  "m ''depth'' = None \<Longrightarrow>
   set_depth m ''depth'' =
     (case m ''pressure'' of None \<Rightarrow> None | Some PyNone \<Rightarrow> None | Some p \<Rightarrow> Some p)"
  by (auto simp: set_depth_def split: option.splits pyval.splits)

lemma set_depth_finite:
  "(\<And>k. finite_or_absent (m k)) \<Longrightarrow> finite_or_absent (set_depth m k)"
proof -
  assume a: "\<And>k. finite_or_absent (m k)"
  show ?thesis
  proof (cases "k = ''depth''")
    case False
    with a show ?thesis by (simp add: set_depth_other)
  next
    case True
    from a [of "''pressure''"] a [of "''depth''"] True show ?thesis
      by (auto simp: set_depth_def split: option.splits pyval.splits)
  qed
qed

lemma build_measurement_finite:
  assumes "build_measurement lib vars qf i = Inr m" and "k \<noteq> ''quality_flag''"
  shows "finite_or_absent (m k)"
proof -
  from assms(1) obtain m0 q where lv: "level_values lib vars i Map.empty = Inr m0"
    and m: "m = (set_depth m0)(''quality_flag'' \<mapsto> PyInt q)"
    by (auto simp: build_measurement_def bnd_eq_Inr)
  have "\<And>k. finite_or_absent (m0 k)"
    using level_values_finite [OF lv] by simp
  then have "finite_or_absent (set_depth m0 k)" by (rule set_depth_finite)
  with m assms(2) show ?thesis by simp
qed

lemma build_measurement_depth:
  assumes b: "build_measurement lib vars qf i = Inr m"
    and nd: "''depth'' \<notin> fst ` set vars" and pr: "''pressure'' \<in> fst ` set vars"
  shows "(\<exists>p. m ''pressure'' = Some p) \<and>
         (\<forall>p. m ''pressure'' = Some p \<and> p \<noteq> PyNone \<longrightarrow> m ''depth'' = Some p) \<and>
         (m ''pressure'' = Some PyNone \<longrightarrow> m ''depth'' = None)"
proof -
  from b obtain m0 q where lv: "level_values lib vars i Map.empty = Inr m0"
    and m: "m = (set_depth m0)(''quality_flag'' \<mapsto> PyInt q)"
    by (auto simp: build_measurement_def bnd_eq_Inr)
  from level_values_other [OF lv nd] have d0: "m0 ''depth'' = None" by simp
  from level_values_present [OF lv] pr have p0: "m0 ''pressure'' \<noteq> None" by blast
  have mp: "m ''pressure'' = m0 ''pressure''" using m by (simp add: set_depth_other)
  have md: "m ''depth'' = (case m0 ''pressure'' of None \<Rightarrow> None | Some PyNone \<Rightarrow> None | Some p \<Rightarrow> Some p)"
    using m d0 set_depth_depth [of m0] by simp
  from p0 mp md show ?thesis by (auto split: pyval.splits)
qed

lemma build_measurement_flag:
  assumes "build_measurement lib vars qf i = Inr m"
  shows "\<exists>q. qc_flag_of lib qf i = Inr q \<and> m ''quality_flag'' = Some (PyInt q)"
  using assms by (auto simp: build_measurement_def bnd_eq_Inr)

lemma build_measurements_sound:
  "build_measurements lib validate vars qf is = Inr ms \<Longrightarrow>
     length ms \<le> length is \<and>
     (\<forall>m \<in> set ms. \<exists>i \<in> set is. build_measurement lib vars qf i = Inr m)"
proof (induction "is" arbitrary: ms)
  case Nil
  then show ?case by simp
next
  case (Cons i "is")
  from Cons.prems obtain m ok rest where
    bm: "build_measurement lib vars qf i = Inr m" and
    r: "build_measurements lib validate vars qf is = Inr rest" and
    ms: "ms = (if ok then m # rest else rest)"
    by (auto simp: bnd_eq_Inr)
  from Cons.IH [OF r] bm ms show ?case by auto
qed

lemma extract_measurements_cases:
  "extract_measurements lib validate ds = [] \<or>
   (\<exists>n vars. n_levels_of ds = Inr (Some n) \<and> measurement_arrays ds = Some vars \<and>
      build_measurements lib validate vars (quality_flags ds) [0..<n] =
        Inr (extract_measurements lib validate ds))"
  by (auto simp: extract_measurements_def extract_measurements_body_def bnd_def
      split: sum.splits option.splits)

lemma qc_flag_of_cases:
  "(qf ''PRES'' = None \<longrightarrow> qc_flag_of lib qf i = Inr 1) \<and>
   (\<forall>xs. qf ''PRES'' = Some (Vec xs) \<and> length xs \<le> i \<longrightarrow> qc_flag_of lib qf i = Inr 1) \<and>
   (\<forall>xs q. qf ''PRES'' = Some (Vec xs) \<and> i < length xs \<and> py_int lib (xs ! i) = Inr q \<longrightarrow>
      qc_flag_of lib qf i = Inr q) \<and>
   (\<forall>xs e. qf ''PRES'' = Some (Vec xs) \<and> i < length xs \<and> py_int lib (xs ! i) = Inl e \<and>
      (e = ValueError \<or> e = TypeError) \<longrightarrow> qc_flag_of lib qf i = Inr 1)"
  by (auto simp: qc_flag_of_def)

lemma qc_flag_of_claimed:
  "qc_flag_of lib qf i = Inr q \<Longrightarrow> q = claimed_flag lib qf i"
  by (auto simp: qc_flag_of_def claimed_flag_def bnd_eq_Inr
      split: option.splits ndarray.splits if_splits sum.splits py_exn.splits)

lemma upt_0_3: "[0..<3] = [0, 1, 2]"
  by (simp add: upt_rec)

lemma sample_n_levels: "n_levels_of sample_ds = Inr (Some 3)"
  by (simp add: n_levels_of_def sample_ds_def)

lemma sample_arrays:
  "measurement_arrays sample_ds =
     Some [(''pressure'', Vec [PyFloat (Fin 5), PyFloat NaN, PyFloat (Fin 20)]),
           (''temperature'', Vec [PyFloat (Fin 20), PyFloat (Fin 19), PyFloat PosInf]),
           (''salinity'', Vec [PyFloat (Fin 35), PyFloat (Fin 35)])]"
  by (simp add: measurement_arrays_def sample_ds_def optional_variables_def)

lemma sample_qf: "quality_flags sample_ds ''PRES'' = Some (Vec [PyStr ''4'', PyStr '' ''])"
  by (simp add: quality_flags_def qc_params_def sample_ds_def)

lemma digits_4: "digits_value ''4'' = Some 4"
  by (simp add: digits_value_def)

lemma digits_space: "digits_value '' '' = None"
  by (simp add: digits_value_def)

lemma sample_flags:
  "qc_flag_of sample_lib (quality_flags sample_ds) 0 = Inr 4"
  "qc_flag_of sample_lib (quality_flags sample_ds) 1 = Inr 1"
  "qc_flag_of sample_lib (quality_flags sample_ds) (Suc 0) = Inr 1"
  "qc_flag_of sample_lib (quality_flags sample_ds) 2 = Inr 1"
  by (simp_all add: qc_flag_of_def sample_qf sample_lib_def digits_4 digits_space)

lemma sample_length:
  "length (extract_measurements sample_lib accept_all sample_ds) = 3"
  by (simp add: extract_measurements_def extract_measurements_body_def sample_n_levels
      sample_arrays upt_0_3 build_measurement_def level_value_def sample_flags accept_all_def)

lemma sample_second:
  "(extract_measurements sample_lib accept_all sample_ds ! 1) ''pressure'' = Some PyNone"
  "(extract_measurements sample_lib accept_all sample_ds ! 1) ''depth'' = None"
  "(extract_measurements sample_lib accept_all sample_ds ! 0) ''depth'' = Some (PyFloat (Fin 5))"
  "(extract_measurements sample_lib accept_all sample_ds ! 2) ''temperature'' = Some PyNone"
  "(extract_measurements sample_lib accept_all sample_ds ! 2) ''salinity'' = Some PyNone"
  "(extract_measurements sample_lib accept_all sample_ds ! 0) ''quality_flag'' = Some (PyInt 4)"
  by (simp_all add: extract_measurements_def extract_measurements_body_def sample_n_levels
      sample_arrays upt_0_3 build_measurement_def level_value_def sample_flags accept_all_def
      set_depth_def)

lemma sample_pressures:
  "(extract_measurements sample_lib accept_all sample_ds ! 0) ''pressure'' = Some (PyFloat (Fin 5))"
  "(extract_measurements sample_lib accept_all sample_ds ! 1) ''pressure'' = Some PyNone"
  by (simp_all add: extract_measurements_def extract_measurements_body_def sample_n_levels
      sample_arrays upt_0_3 build_measurement_def level_value_def sample_flags accept_all_def
      set_depth_def)

lemma inf_qc:
  "qc_flag_of sample_lib (quality_flags inf_qc_ds) 0 = Inl OverflowError"
  by (simp add: qc_flag_of_def quality_flags_def qc_params_def inf_qc_ds_def)

lemma inf_qc_claimed: "claimed_flag sample_lib (quality_flags inf_qc_ds) 0 = 1"
  by (simp add: claimed_flag_def quality_flags_def qc_params_def inf_qc_ds_def)

lemma inf_qc_extract: "extract_measurements sample_lib accept_all inf_qc_ds = []"
  by (simp add: extract_measurements_def extract_measurements_body_def n_levels_of_def
      measurement_arrays_def optional_variables_def inf_qc_ds_def
      build_measurement_def level_value_def inf_qc [unfolded inf_qc_ds_def])

subsection \<open>extract_measurements\<close>

text \<open>
  Claim C4. With \<open>N\<close> raw levels (the size of the dimension \<open>N_LEVELS\<close>, else the length
  of the pressure array) \<open>extract_measurements\<close> returns at most \<open>N\<close> records, it returns
  none when \<open>N\<close> cannot be determined, and in every record it returns each field other
  than the quality flag is a finite float, \<open>None\<close>, or missing: no NaN and no infinity
  is kept.
\<close>

theorem extract_measurements_bounded_finite:
  "(\<forall>n. n_levels_of ds = Inr (Some n) \<longrightarrow> length (extract_measurements lib validate ds) \<le> n) \<and>
   ((\<forall>n. n_levels_of ds \<noteq> Inr (Some n)) \<longrightarrow> extract_measurements lib validate ds = []) \<and>
   (\<forall>m \<in> set (extract_measurements lib validate ds).
      \<forall>k. k \<noteq> ''quality_flag'' \<longrightarrow> finite_or_absent (m k))"
proof (cases "extract_measurements lib validate ds = []")
  case True
  then show ?thesis by simp
next
  case False
  with extract_measurements_cases [of lib validate ds] obtain n vars where
    n: "n_levels_of ds = Inr (Some n)" and
    b: "build_measurements lib validate vars (quality_flags ds) [0..<n] =
          Inr (extract_measurements lib validate ds)"
    by blast
  from build_measurements_sound [OF b]
  have len: "length (extract_measurements lib validate ds) \<le> n"
    and built: "\<forall>m \<in> set (extract_measurements lib validate ds).
        \<exists>i \<in> set [0..<n]. build_measurement lib vars (quality_flags ds) i = Inr m"
    by simp_all
  have fin: "\<forall>m \<in> set (extract_measurements lib validate ds).
      \<forall>k. k \<noteq> ''quality_flag'' \<longrightarrow> finite_or_absent (m k)"
    using built build_measurement_finite by blast
  from n len fin show ?thesis by simp
qed

theorem extract_measurements_bounded_finite_witness:
  "length (extract_measurements sample_lib accept_all sample_ds) \<le> 3 \<and>
   extract_measurements sample_lib accept_all sample_ds \<noteq> [] \<and>
   finite_or_absent ((extract_measurements sample_lib accept_all sample_ds ! 2) ''temperature'')"
proof -
  let ?ms = "extract_measurements sample_lib accept_all sample_ds"
  have ne: "?ms \<noteq> []" using sample_length by auto
  have mem: "?ms ! 2 \<in> set ?ms" using sample_length by simp
  note inst = extract_measurements_bounded_finite [of sample_ds sample_lib accept_all]
  from inst [THEN conjunct1, THEN spec, of 3] sample_n_levels
  have len: "length ?ms \<le> 3" by (rule mp)
  from inst [THEN conjunct2, THEN conjunct2, THEN bspec, OF mem, THEN spec, of "''temperature''"]
  have fin: "finite_or_absent ((?ms ! 2) ''temperature'')" by simp
  from len ne fin show ?thesis by (intro conjI)
qed

text \<open>
  Claim C5. In every record that \<open>extract_measurements\<close> returns the key \<open>pressure\<close> is
  set; when its value is not \<open>None\<close> the field \<open>depth\<close> holds the same value, and when
  it is \<open>None\<close> the record has no \<open>depth\<close>.
\<close>

theorem depth_equals_pressure:
  "\<forall>m \<in> set (extract_measurements lib validate ds).
     (\<exists>p. m ''pressure'' = Some p) \<and>
     (\<forall>p. m ''pressure'' = Some p \<and> p \<noteq> PyNone \<longrightarrow> m ''depth'' = Some p) \<and>
     (m ''pressure'' = Some PyNone \<longrightarrow> m ''depth'' = None)"
proof (cases "extract_measurements lib validate ds = []")
  case True
  then show ?thesis by simp
next
  case False
  with extract_measurements_cases [of lib validate ds] obtain n vars where
    a: "measurement_arrays ds = Some vars" and
    b: "build_measurements lib validate vars (quality_flags ds) [0..<n] =
          Inr (extract_measurements lib validate ds)"
    by blast
  from build_measurements_sound [OF b]
  have built: "\<forall>m \<in> set (extract_measurements lib validate ds).
        \<exists>i \<in> set [0..<n]. build_measurement lib vars (quality_flags ds) i = Inr m"
    by simp
  show ?thesis
  proof
    fix m assume "m \<in> set (extract_measurements lib validate ds)"
    with built obtain i where "build_measurement lib vars (quality_flags ds) i = Inr m"
      by blast
    from build_measurement_depth [OF this measurement_arrays_keys(1) [OF a]
        measurement_arrays_keys(3) [OF a]]
    show "(\<exists>p. m ''pressure'' = Some p) \<and>
     (\<forall>p. m ''pressure'' = Some p \<and> p \<noteq> PyNone \<longrightarrow> m ''depth'' = Some p) \<and>
     (m ''pressure'' = Some PyNone \<longrightarrow> m ''depth'' = None)" .
  qed
qed

theorem depth_equals_pressure_witness:
  "(extract_measurements sample_lib accept_all sample_ds ! 0) ''pressure'' = Some (PyFloat (Fin 5)) \<and>
   (extract_measurements sample_lib accept_all sample_ds ! 0) ''depth'' = Some (PyFloat (Fin 5)) \<and>
   (extract_measurements sample_lib accept_all sample_ds ! 1) ''pressure'' = Some PyNone \<and>
   (extract_measurements sample_lib accept_all sample_ds ! 1) ''depth'' = None"
proof -
  let ?ms = "extract_measurements sample_lib accept_all sample_ds"
  have m0: "?ms ! 0 \<in> set ?ms" and m1: "?ms ! 1 \<in> set ?ms" using sample_length by simp_all
  have p0: "(?ms ! 0) ''pressure'' = Some (PyFloat (Fin 5))"
    and p1: "(?ms ! 1) ''pressure'' = Some PyNone"
    by (rule sample_pressures(1), rule sample_pressures(2))
  from depth_equals_pressure [of sample_lib accept_all sample_ds] m0 p0
  have d0: "(?ms ! 0) ''depth'' = Some (PyFloat (Fin 5))" by blast
  from depth_equals_pressure [of sample_lib accept_all sample_ds] m1 p1
  have d1: "(?ms ! 1) ''depth'' = None" by blast
  from p0 p1 d0 d1 show ?thesis by blast
qed

text \<open>
  Claim C6. The claim says that the quality flag is 1 whenever the quality-control value
  fails to convert (\<open>claimed_flag\<close> is the flag as the claim words it). The handler
  around \<open>int\<close> catches ValueError and TypeError only. An infinite value in a
  floating-point quality-control array makes \<open>int\<close> raise OverflowError: no flag is
  produced for the level, the exception leaves the loop, and \<open>extract_measurements\<close>
  returns no record at all, although the level's pressure, temperature and salinity
  are sound.
\<close>

theorem infinite_qc_flag_loses_records:
  "py_int sample_lib (PyFloat PosInf) = Inl OverflowError \<and>
   qc_flag_of sample_lib (quality_flags inf_qc_ds) 0 = Inl OverflowError \<and>
   claimed_flag sample_lib (quality_flags inf_qc_ds) 0 = 1 \<and>
   extract_measurements sample_lib accept_all inf_qc_ds = []"
  by (simp add: inf_qc inf_qc_claimed inf_qc_extract)

subsection \<open>extract_profile_metadata\<close>

text \<open>The timestamp step: the current time when \<open>JULD\<close> is missing or NaN, the epoch
  1950-01-01 plus the offset when the offset is finite and in range, an exception when
  it is infinite.\<close>

lemma md_date_absent:
  "variables ds ''JULD'' = None \<Longrightarrow>
     md_date now ds md = Inr (md(''measurement_date'' \<mapsto> PyTime now))"
  by (simp add: md_date_def)

lemma md_date_nan:
  "variables ds ''JULD'' = Some juld \<Longrightarrow> np_item juld = Inr (PyFloat NaN) \<Longrightarrow>
     md_date now ds md = Inr (md(''measurement_date'' \<mapsto> PyTime now))"
  by (simp add: md_date_def)

lemma md_date_finite:
  "variables ds ''JULD'' = Some juld \<Longrightarrow> np_item juld = Inr (PyFloat (Fin r)) \<Longrightarrow>
   \<bar>trunc (r * of_int ns_per_day)\<bar> \<le> i64_max \<Longrightarrow>
   \<bar>base_date + trunc (r * of_int ns_per_day)\<bar> \<le> i64_max \<Longrightarrow>
     md_date now ds md =
       Inr (md(''measurement_date'' \<mapsto> PyTime (base_date + trunc (r * of_int ns_per_day))))"
  by (simp add: md_date_def ts_add_def Let_def)

lemma md_date_infinite:
  "variables ds ''JULD'' = Some juld \<Longrightarrow>
   np_item juld = Inr (PyFloat PosInf) \<or> np_item juld = Inr (PyFloat NegInf) \<Longrightarrow>
     md_date now ds md = Inl OverflowError"
  by (auto simp: md_date_def)

text \<open>
  Claim C7. The claim says that a non-finite day offset, NaN or infinite, falls back to
  the current time. \<open>extract_profile_metadata\<close> tests \<open>np.isnan\<close> only: on an infinite
  offset \<open>pd.Timedelta\<close> raises, the outer handler returns the empty dictionary, and the
  result has no \<open>measurement_date\<close> (nor any other field).
\<close>

theorem infinite_juld_loses_metadata:
  "extract_profile_metadata_body lib now inf_juld_ds = Inl OverflowError \<and>
   extract_profile_metadata lib now inf_juld_ds ''measurement_date'' = None \<and>
   extract_profile_metadata lib now inf_juld_ds = Map.empty"
proof -
  have "extract_profile_metadata_body lib now inf_juld_ds = Inl OverflowError"
    by (simp add: extract_profile_metadata_body_def md_platform_def md_float_id_def
        md_cycle_def md_coord_def md_date_def inf_juld_ds_def)
  then show ?thesis by (simp add: extract_profile_metadata_def)
qed

subsection \<open>insert_profile\<close>

lemma file_hash_in_unique_msg: "sublist ''file_hash'' unique_violation_msg"
  unfolding sublist_def unique_violation_msg_def
  by (rule exI [of _ "''duplicate key value violates unique constraint argo_profiles_''"],
      rule exI [of _ "''_key''"], simp)

lemma msgs_differ: "not_null_violation_msg \<noteq> unique_violation_msg"
  by (simp add: not_null_violation_msg_def unique_violation_msg_def)

lemma pg_insert_profile_unique:
  assumes "pg_insert_profile st d = (Inl (IntegrityError unique_violation_msg), st1)"
  shows "connected st \<and> st1 = st\<lparr>next_profile_id := next_profile_id st + 1\<rparr> \<and>
         (\<exists>h. d ''file_hash'' = Some h \<and> list_ex (hash_matches h) (profiles st))"
  using assms msgs_differ
  by (auto simp: pg_insert_profile_def Let_def split: if_splits option.splits)

lemma pg_insert_profile_ok:
  assumes "connected st" "has_keys profile_keys d" "profile_fits d"
    "d ''float_id'' \<noteq> Some PyNone" "d ''file_hash'' = Some h"
    "\<not> list_ex (hash_matches h) (profiles st)"
  shows "pg_insert_profile st d =
           (Inr (next_profile_id st),
            st\<lparr>next_profile_id := next_profile_id st + 1,
               profiles := profiles st @
                 [\<lparr>p_id = next_profile_id st, p_cols = d |` set profile_keys\<rparr>]\<rparr>)"
  using assms by (simp add: pg_insert_profile_def Let_def)

lemma get_profile_id_by_hash_found:
  assumes "connected st" and "list_ex (hash_matches h) (profiles st)"
  shows "\<exists>r. r \<in> set (profiles st) \<and> hash_matches h r \<and>
           get_profile_id_by_hash st h = Some (p_id r)"
proof -
  from assms(2) have "filter (hash_matches h) (profiles st) \<noteq> []"
    by (simp add: list_ex_iff filter_empty_conv)
  then obtain r rs where f: "filter (hash_matches h) (profiles st) = r # rs"
    by (cases "filter (hash_matches h) (profiles st)") auto
  then have "r \<in> set (filter (hash_matches h) (profiles st))" by simp
  then have "r \<in> set (profiles st)" "hash_matches h r" by simp_all
  with assms(1) f show ?thesis by (auto simp: get_profile_id_by_hash_def)
qed

lemma get_profile_id_by_hash_Some:
  assumes "get_profile_id_by_hash st h = Some p"
  shows "connected st \<and> list_ex (hash_matches h) (profiles st) \<and>
         (\<exists>r. r \<in> set (profiles st) \<and> hash_matches h r \<and> p_id r = p)"
proof -
  from assms have c: "connected st"
    by (auto simp: get_profile_id_by_hash_def split: if_splits)
  with assms obtain r rs where f: "filter (hash_matches h) (profiles st) = r # rs"
    and p: "p_id r = p"
    by (auto simp: get_profile_id_by_hash_def split: list.splits)
  from f have "r \<in> set (filter (hash_matches h) (profiles st))" by simp
  then have "r \<in> set (profiles st)" "hash_matches h r" by simp_all
  with c p show ?thesis by (auto simp: list_ex_iff)
qed

lemma get_profile_id_by_hash_next:
  "get_profile_id_by_hash (st\<lparr>next_profile_id := n\<rparr>) h = get_profile_id_by_hash st h"
  by (simp add: get_profile_id_by_hash_def)

lemma one_profile_unique_violation:
  "pg_insert_profile one_profile_store sample_profile =
     (Inl (IntegrityError unique_violation_msg), one_profile_store\<lparr>next_profile_id := 3\<rparr>)"
  by (simp add: pg_insert_profile_def one_profile_store_def sample_profile_def has_keys_def
      profile_keys_def profile_fits_def varchar_fits_def hash_matches_def Let_def)

text \<open>
  Claim C2. When the \<open>INSERT\<close> of a profile is rejected by the uniqueness constraint on
  \<open>file_hash\<close>, \<open>insert_profile\<close> does not raise: it looks the digest up with
  \<open>get_profile_id_by_hash\<close> and returns the identifier of a row that was already in the
  table and holds that digest. Neither table changes; the rejected \<open>INSERT\<close> has only
  consumed a value of the sequence.
\<close>

theorem insert_profile_unique_violation:
  assumes "pg_insert_profile st d = (Inl (IntegrityError unique_violation_msg), st1)"
  shows "\<exists>r h. r \<in> set (profiles st) \<and> d ''file_hash'' = Some h \<and>
           p_cols r ''file_hash'' = Some h \<and>
           get_profile_id_by_hash st1 h = Some (p_id r) \<and>
           insert_profile st d = (Inr (Some (p_id r)), st1) \<and>
           profiles st1 = profiles st \<and> measurements st1 = measurements st"
proof -
  from pg_insert_profile_unique [OF assms] obtain h where
    c: "connected st" and s1: "st1 = st\<lparr>next_profile_id := next_profile_id st + 1\<rparr>" and
    h: "d ''file_hash'' = Some h" and ex: "list_ex (hash_matches h) (profiles st)"
    by blast
  from c ex s1 have "connected st1" "list_ex (hash_matches h) (profiles st1)" by simp_all
  from get_profile_id_by_hash_found [OF this] obtain r where
    r: "r \<in> set (profiles st1)" "hash_matches h r"
       "get_profile_id_by_hash st1 h = Some (p_id r)"
    by blast
  have ins: "insert_profile st d = (Inr (Some (p_id r)), st1)"
    using assms h r(3) by (simp add: insert_profile_def file_hash_in_unique_msg)
  from r h s1 ins show ?thesis by (auto simp: hash_matches_def)
qed

theorem insert_profile_unique_violation_witness:
  "insert_profile one_profile_store sample_profile =
     (Inr (Some 1), one_profile_store\<lparr>next_profile_id := 3\<rparr>)"
proof -
  from insert_profile_unique_violation [OF one_profile_unique_violation] obtain r where
    r: "r \<in> set (profiles one_profile_store)" and
    i: "insert_profile one_profile_store sample_profile =
          (Inr (Some (p_id r)), one_profile_store\<lparr>next_profile_id := 3\<rparr>)"
    by blast
  from r have "p_id r = 1" by (simp add: one_profile_store_def)
  with i show ?thesis by simp
qed

subsection \<open>Ingesting a file whose digest is already stored\<close>

lemma wf_store_found_nonzero:
  "wf_store st \<Longrightarrow> get_profile_id_by_hash st h = Some p \<Longrightarrow> p \<noteq> 0"
  using get_profile_id_by_hash_Some [of st h p]
  by (auto simp: wf_store_def list_all_iff)

lemma insert_profile_existing:
  assumes g: "get_profile_id_by_hash st h = Some p" and h: "md ''file_hash'' = Some h"
    and i: "insert_profile st md = (x, st1)"
  shows "profiles st1 = profiles st \<and> measurements st1 = measurements st \<and>
         connected st1 = connected st \<and> (\<forall>q. x = Inr q \<longrightarrow> q = Some p)"
proof -
  from get_profile_id_by_hash_Some [OF g] have
    c: "connected st" and ex: "list_ex (hash_matches h) (profiles st)" by simp_all
  from i c ex h g show ?thesis
    by (auto simp: insert_profile_def pg_insert_profile_def Let_def get_profile_id_by_hash_next
        split: if_splits option.splits)
qed

lemma insert_profile_duplicate:
  assumes "has_keys profile_keys md" "profile_fits md" "md ''float_id'' \<noteq> Some PyNone"
    "md ''file_hash'' = Some h" "get_profile_id_by_hash st h = Some p"
  shows "insert_profile st md = (Inr (Some p), st\<lparr>next_profile_id := next_profile_id st + 1\<rparr>)"
proof -
  from get_profile_id_by_hash_Some [OF assms(5)] have
    c: "connected st" and ex: "list_ex (hash_matches h) (profiles st)" by simp_all
  with assms show ?thesis
    by (simp add: insert_profile_def pg_insert_profile_def Let_def file_hash_in_unique_msg
        get_profile_id_by_hash_next)
qed

lemma pg_insert_measurement_rows_profiles:
  "pg_insert_measurement_rows st pid ms = (y, st2) \<Longrightarrow> profiles st2 = profiles st"
proof (induction ms arbitrary: st)
  case Nil
  then show ?case by simp
next
  case (Cons m ms)
  then show ?case
    by (fastforce simp: Let_def split: if_splits)
qed

lemma insert_measurements_profiles:
  "insert_measurements st pid ms = (y, st2) \<Longrightarrow> profiles st2 = profiles st"
  by (auto simp: insert_measurements_def split: if_splits
      dest: pg_insert_measurement_rows_profiles)

lemma pg_insert_measurement_rows_ok:
  "list_all (has_keys measurement_keys) ms \<Longrightarrow> list_ex (\<lambda>r. p_id r = p) (profiles st) \<Longrightarrow>
     \<exists>st2. pg_insert_measurement_rows st (Some p) ms = (Inr (), st2) \<and>
        profiles st2 = profiles st \<and> connected st2 = connected st \<and>
        next_profile_id st2 = next_profile_id st \<and>
        length (measurements st2) = length (measurements st) + length ms"
proof (induction ms arbitrary: st)
  case Nil
  then show ?case by simp
next
  case (Cons m ms)
  let ?st1 = "st\<lparr>next_measurement_id := next_measurement_id st + 1,
                  measurements := measurements st @
                    [\<lparr>m_id = next_measurement_id st, m_profile_id = Some p,
                      m_cols = m |` set measurement_keys\<rparr>]\<rparr>"
  from Cons.prems have step:
    "pg_insert_measurement_rows st (Some p) (m # ms) =
       pg_insert_measurement_rows ?st1 (Some p) ms"
    by (simp add: Let_def)
  from Cons.prems have "list_all (has_keys measurement_keys) ms"
    and "list_ex (\<lambda>r. p_id r = p) (profiles ?st1)" by simp_all
  from Cons.IH [OF this] obtain st2 where
    "pg_insert_measurement_rows ?st1 (Some p) ms = (Inr (), st2)"
    "profiles st2 = profiles ?st1" "connected st2 = connected ?st1"
    "next_profile_id st2 = next_profile_id ?st1"
    "length (measurements st2) = length (measurements ?st1) + length ms"
    by blast
  with step show ?case by simp
qed

text \<open>What \<open>store_data_in_database\<close> does once \<open>insert_profile\<close> has returned an
  identifier, whether of a new row or of the row that was already there.\<close>

lemma store_data_in_database_appends:
  assumes ip: "insert_profile st md = (Inr (Some p), st1)"
    and con: "connected st1" and ex: "list_ex (\<lambda>r. p_id r = p) (profiles st1)"
    and ne: "ms \<noteq> []" and cl: "clean co ms = Inr cms"
    and keys: "list_all (\<lambda>m. has_keys measurement_keys (m(''profile_id'' \<mapsto> PyInt (int p)))) cms"
    and ix: "index_profile co vs cms md (Some p) = (None, vs1)"
  shows "\<exists>st2. store_data_in_database co (st, vs) md ms = (Inr (Some p), st2, vs1) \<and>
           profiles st2 = profiles st1 \<and> connected st2 \<and>
           next_profile_id st2 = next_profile_id st1 \<and>
           length (measurements st2) = length (measurements st1) + length cms"
proof -
  let ?rows = "map (\<lambda>m. m(''profile_id'' \<mapsto> profile_id_val (Some p))) cms"
  from keys have "list_all (has_keys measurement_keys) ?rows"
    by (simp add: list_all_iff profile_id_val_def)
  from pg_insert_measurement_rows_ok [OF this ex] obtain st2 where
    r: "pg_insert_measurement_rows st1 (Some p) ?rows = (Inr (), st2)"
    and f: "profiles st2 = profiles st1" "connected st2 = connected st1"
      "next_profile_id st2 = next_profile_id st1"
      "length (measurements st2) = length (measurements st1) + length ?rows"
    by blast
  from r con have im: "insert_measurements st1 (Some p) cms = (Inr (), st2)"
    by (simp add: insert_measurements_def)
  have "store_data_in_database co (st, vs) md ms = (Inr (Some p), st2, vs1)"
    using ip ne cl im ix by (simp add: store_data_in_database_def)
  with f con show ?thesis by simp
qed

lemma store_data_in_database_existing:
  assumes g: "get_profile_id_by_hash st h = Some p" and h: "md ''file_hash'' = Some h"
    and s: "store_data_in_database co (st, vs) md ms = (z, st', vs')"
  shows "profiles st' = profiles st \<and> (\<forall>q. z = Inr q \<longrightarrow> q = Some p)"
proof -
  obtain x st1 where i: "insert_profile st md = (x, st1)" by (cases "insert_profile st md")
  from insert_profile_existing [OF g h i] have
    p1: "profiles st1 = profiles st" and xq: "\<forall>q. x = Inr q \<longrightarrow> q = Some p" by simp_all
  show ?thesis
  proof (cases x)
    case (Inl e)
    with s i p1 show ?thesis by (auto simp: store_data_in_database_def)
  next
    case (Inr q)
    with xq have q: "q = Some p" by simp
    show ?thesis
    proof (cases "ms \<noteq> []")
      case False
      with s i Inr q p1 show ?thesis by (auto simp: store_data_in_database_def)
    next
      case True
      show ?thesis
      proof (cases "clean co ms")
        case (Inl e)
        with s i \<open>x = Inr q\<close> True p1 show ?thesis
          by (auto simp: store_data_in_database_def)
      next
        case (Inr cms)
        obtain y st2 where im: "insert_measurements st1 q cms = (y, st2)"
          by (cases "insert_measurements st1 q cms")
        from insert_measurements_profiles [OF im] p1 have p2: "profiles st2 = profiles st"
          by simp
        obtain w vs1 where ix: "index_profile co vs cms md q = (w, vs1)"
          by (cases "index_profile co vs cms md q")
        from s i \<open>x = Inr q\<close> True Inr im ix p2 q show ?thesis
          by (auto simp: store_data_in_database_def split: sum.splits option.splits)
      qed
    qed
  qed
qed

text \<open>The sample upload, processed.\<close>

lemma ext_tmp1: "lower (splitext_ext ''tmp1.nc'') = ''.nc''"
  by (simp add: splitext_ext_def basename_def lower_def lower_char_def)

lemma ext_tmp2: "lower (splitext_ext ''tmp2.nc'') = ''.nc''"
  by (simp add: splitext_ext_def basename_def lower_def lower_char_def)

lemma full_ds_date:
  "md_date 0 full_ds md = Inr (md(''measurement_date'' \<mapsto> PyTime (- 7205 * ns_per_day)))"
  by (simp add: md_date_def full_ds_def trunc_def ts_add_def base_date_def ns_per_day_def
      i64_max_def Let_def)

lemma full_ds_metadata:
  "(extract_profile_metadata sample_lib 0 full_ds)
     (''file_hash'' \<mapsto> PyStr ''digest-of-argo-bytes'') = sample_metadata"
proof -
  have 1: "md_platform sample_lib full_ds Map.empty = Inr [''platform_number'' \<mapsto> PyStr ''1901234'']"
    by (simp add: md_platform_def full_ds_def sample_lib_def)
  have 2: "md_float_id [''platform_number'' \<mapsto> PyStr ''1901234''] =
             Inr [''platform_number'' \<mapsto> PyStr ''1901234'', ''float_id'' \<mapsto> PyStr ''1901234'']"
    by (simp add: md_float_id_def)
  have 3: "md_cycle sample_lib full_ds md = Inr (md(''cycle_number'' \<mapsto> PyInt 7))" for md
    by (simp add: md_cycle_def full_ds_def)
  have 4: "md_coord sample_lib full_ds ''LATITUDE'' ''latitude'' md =
             Inr (md(''latitude'' \<mapsto> PyFloat (Fin 10)))" for md
    by (simp add: md_coord_def full_ds_def)
  have 5: "md_coord sample_lib full_ds ''LONGITUDE'' ''longitude'' md =
             Inr (md(''longitude'' \<mapsto> PyFloat (Fin 60)))" for md
    by (simp add: md_coord_def full_ds_def)
  have 6: "md_data_center sample_lib full_ds md = Inr (md(''data_center'' \<mapsto> PyStr ''IN''))" for md
    by (simp add: md_data_center_def full_ds_def sample_lib_def Let_def)
  show ?thesis
    by (simp add: extract_profile_metadata_def extract_profile_metadata_body_def
        1 2 3 4 5 6 full_ds_date sample_metadata_def)
qed

lemma sample_metadata_ok:
  "has_keys profile_keys sample_metadata" "profile_fits sample_metadata"
  "sample_metadata ''float_id'' \<noteq> Some PyNone"
  "sample_metadata ''file_hash'' = Some (PyStr ''digest-of-argo-bytes'')"
  by (simp_all add: sample_metadata_def has_keys_def profile_keys_def
      profile_fits_def varchar_fits_def)

lemma full_ds_measurements:
  "extract_measurements sample_lib accept_all full_ds = [sample_measurement]"
proof -
  have n: "n_levels_of full_ds = Inr (Some 1)"
    by (simp add: n_levels_of_def full_ds_def)
  have a: "measurement_arrays full_ds =
     Some [(''pressure'', Vec [PyFloat (Fin 5)]), (''temperature'', Vec [PyFloat (Fin 20)]),
           (''salinity'', Vec [PyFloat (Fin 35)]), (''oxygen'', Vec [PyFloat (Fin 200)]),
           (''nitrate'', Vec [PyFloat (Fin 2)]), (''ph'', Vec [PyFloat (Fin 8)]),
           (''chlorophyll'', Vec [PyFloat (Fin 1)])]"
    by (simp add: measurement_arrays_def full_ds_def optional_variables_def)
  have q: "quality_flags full_ds ''PRES'' = None"
    by (simp add: quality_flags_def full_ds_def qc_params_def)
  have l: "level_value sample_lib (Vec [PyFloat (Fin r)]) 0 = Inr (PyFloat (Fin r))" for r
    by (simp add: level_value_def)
  have "extract_measurements_body sample_lib accept_all full_ds = Inr [sample_measurement]"
    by (simp add: extract_measurements_body_def n a build_measurement_def l
        qc_flag_of_def q accept_all_def set_depth_def sample_measurement_def)
  then show ?thesis by (simp add: extract_measurements_def)
qed

lemma sample_measurement_keys:
  "has_keys measurement_keys (sample_measurement(''profile_id'' \<mapsto> v))"
  by (simp add: has_keys_def measurement_keys_def sample_measurement_def)

lemma sample_processed:
  "process_uploaded_file sample_lib accept_all sample_md5 0 ''tmp1'' sample_upload =
     Inr (sample_metadata, [sample_measurement])"
  "process_uploaded_file sample_lib accept_all sample_md5 0 ''tmp2'' sample_upload =
     Inr (sample_metadata, [sample_measurement])"
proof -
  have v1: "validate_file [''tmp1.nc'' \<mapsto> sample_upload] ''tmp1.nc''"
    by (simp add: validate_file_iff ext_tmp1 supported_formats_def sample_upload_def full_ds_def)
  have v2: "validate_file [''tmp2.nc'' \<mapsto> sample_upload] ''tmp2.nc''"
    by (simp add: validate_file_iff ext_tmp2 supported_formats_def sample_upload_def full_ds_def)
  have h: "calculate_file_hash sample_md5 [p \<mapsto> sample_upload] p = ''digest-of-argo-bytes''" for p
    by (simp add: calculate_file_hash_readable [of _ _ sample_upload "''argo-bytes''"]
        sample_upload_def sample_md5_def)
  have o: "opened sample_upload = Inr full_ds" by (simp add: sample_upload_def)
  show "process_uploaded_file sample_lib accept_all sample_md5 0 ''tmp1'' sample_upload =
     Inr (sample_metadata, [sample_measurement])"
    using v1
    by (simp add: process_uploaded_file_def process_file_def h o full_ds_metadata
        full_ds_measurements)
  show "process_uploaded_file sample_lib accept_all sample_md5 0 ''tmp2'' sample_upload =
     Inr (sample_metadata, [sample_measurement])"
    using v2
    by (simp add: process_uploaded_file_def process_file_def h o full_ds_metadata
        full_ds_measurements)
qed

text \<open>The store after the first run: one Profile row, with identifier 1 and the digest of
  the file, and one Measurement row.\<close>

lemma first_run_result:
  "fst first_run = Success (Some 1) \<and>
   connected (fst (snd first_run)) \<and> next_profile_id (fst (snd first_run)) = 2 \<and>
   profiles (fst (snd first_run)) =
     [\<lparr>p_id = 1, p_cols = sample_metadata |` set profile_keys\<rparr>] \<and>
   length (measurements (fst (snd first_run))) = 1 \<and>
   snd (snd first_run) = [Some 1]"
proof -
  let ?ms = "[sample_measurement]"
  let ?st1 = "empty_store\<lparr>next_profile_id := next_profile_id empty_store + 1,
                profiles := profiles empty_store @
                  [\<lparr>p_id = next_profile_id empty_store,
                    p_cols = sample_metadata |` set profile_keys\<rparr>]\<rparr>"
  have pg: "pg_insert_profile empty_store sample_metadata = (Inr (next_profile_id empty_store), ?st1)"
    by (rule pg_insert_profile_ok [OF _ sample_metadata_ok]) (simp_all add: empty_store_def)
  then have ip: "insert_profile empty_store sample_metadata = (Inr (Some 1), ?st1)"
    by (simp add: insert_profile_def empty_store_def)
  have ne: "?ms \<noteq> []" by simp
  have "\<exists>st2. store_data_in_database sample_co (empty_store, []) sample_metadata ?ms =
            (Inr (Some 1), st2, [] @ [Some 1]) \<and>
           profiles st2 = profiles ?st1 \<and> connected st2 \<and>
           next_profile_id st2 = next_profile_id ?st1 \<and>
           length (measurements st2) = length (measurements ?st1) + length ?ms"
    by (rule store_data_in_database_appends [OF ip _ _ ne])
       (simp_all add: empty_store_def sample_co_def sample_measurement_keys)
  then obtain st2 where
    s: "store_data_in_database sample_co (empty_store, []) sample_metadata ?ms =
          (Inr (Some 1), st2, [Some 1])"
    and f: "profiles st2 = profiles ?st1" "connected st2"
      "next_profile_id st2 = next_profile_id ?st1"
      "length (measurements st2) = length (measurements ?st1) + length ?ms"
    by auto
  have fr: "first_run = (Success (Some 1), st2, [Some 1])"
    by (simp add: first_run_def ingest_file_def sample_processed ingest_processed_def s)
  from f show ?thesis unfolding fr by (simp add: empty_store_def)
qed

lemma first_run_lookup:
  "get_profile_id_by_hash (fst (snd first_run)) (PyStr ''digest-of-argo-bytes'') = Some 1"
  using first_run_result
  by (simp add: get_profile_id_by_hash_def hash_matches_def sample_metadata_ok(4)
      profile_keys_def restrict_map_def)

lemma first_run_wf: "wf_store (fst (snd first_run))"
  using first_run_result by (simp add: wf_store_def)

text \<open>The second run with the option off.\<close>

lemma second_run_result:
  "fst (second_run False) = Success (Some 1) \<and>
   length (profiles (fst (snd (second_run False)))) = 1 \<and>
   length (measurements (fst (snd (second_run False)))) = 2"
proof -
  let ?ms = "[sample_measurement]"
  obtain st0 where sf: "snd first_run = (st0, [Some 1])"
    using first_run_result by (cases "snd first_run") auto
  then have st0: "fst (snd first_run) = st0" by simp
  note fr = first_run_result [unfolded st0]
  note lk = first_run_lookup [unfolded st0]
  let ?st1 = "st0\<lparr>next_profile_id := next_profile_id st0 + 1\<rparr>"
  have ip: "insert_profile st0 sample_metadata = (Inr (Some 1), ?st1)"
    by (rule insert_profile_duplicate [OF sample_metadata_ok lk])
  have ne: "?ms \<noteq> []" by simp
  have "\<exists>st2. store_data_in_database sample_co (st0, [Some 1]) sample_metadata ?ms =
            (Inr (Some 1), st2, [Some 1] @ [Some 1]) \<and>
           profiles st2 = profiles ?st1 \<and> connected st2 \<and>
           next_profile_id st2 = next_profile_id ?st1 \<and>
           length (measurements st2) = length (measurements ?st1) + length ?ms"
    using fr
    by (intro store_data_in_database_appends [OF ip _ _ ne])
       (simp_all add: sample_co_def sample_measurement_keys)
  then obtain st2 where
    s: "store_data_in_database sample_co (st0, [Some 1]) sample_metadata ?ms =
          (Inr (Some 1), st2, [Some 1, Some 1])"
    and f: "profiles st2 = profiles ?st1"
      "length (measurements st2) = length (measurements ?st1) + length ?ms"
    by auto
  have sr: "second_run False = (Success (Some 1), st2, [Some 1, Some 1])"
    using s by (simp add: second_run_def ingest_file_def sample_processed ingest_processed_def sf)
  from f fr show ?thesis unfolding sr by simp
qed

text \<open>
  Claim C1, as worded: ingesting again a file whose digest already has a Profile row
  returns the same identifier and leaves the numbers of Profile rows and of Measurement
  rows unchanged. The page has the option \<open>skip_duplicates\<close>. With the option off the
  duplicate check is not made: \<open>store_data_in_database\<close> runs, \<open>insert_profile\<close> answers the
  uniqueness violation with the identifier of the existing row, and the measurements are
  inserted again under that identifier. The sample upload ingested twice into a new
  database: after the first run the store holds one Profile row, found under the digest,
  and one Measurement row; the second run returns the same identifier 1 and leaves one
  Profile row and two Measurement rows.
\<close>

theorem reingest_duplicates_measurements:
  "fst first_run = Success (Some 1) \<and>
   length (profiles (fst (snd first_run))) = 1 \<and>
   length (measurements (fst (snd first_run))) = 1 \<and>
   get_profile_id_by_hash (fst (snd first_run)) (PyStr (sample_md5 ''argo-bytes'')) = Some 1 \<and>
   fst (second_run False) = Success (Some 1) \<and>
   length (profiles (fst (snd (second_run False)))) = 1 \<and>
   length (measurements (fst (snd (second_run False)))) = 2"
  using first_run_result second_run_result first_run_lookup
  by (simp add: sample_md5_def)

text \<open>
  Claim C1, amended. Let a file be processed successfully, and let its digest be found
  in a store whose identifiers are positive, as a \<open>SERIAL\<close> column makes them. With the
  option \<open>skip_duplicates\<close> on, which is its default, ingestion reports the identifier
  found and leaves the relational store and the vector store exactly as they were: no
  Profile row and no Measurement row is inserted. With the option off, ingestion leaves
  the Profile rows as they were, and an identifier it reports is the identifier found.
\<close>

theorem reingest_existing_digest:
  assumes p: "process_uploaded_file lib validate md5 now tmp_name up = Inr (md, ms)"
    and h: "md ''file_hash'' = Some h"
    and g: "get_profile_id_by_hash st h = Some p"
    and wf: "wf_store st"
  shows "ingest_file lib validate md5 now co True (st, vs) tmp_name up = (Skipped p, st, vs) \<and>
         (\<forall>res st' vs'.
            ingest_file lib validate md5 now co False (st, vs) tmp_name up = (res, st', vs') \<longrightarrow>
            profiles st' = profiles st \<and> (\<forall>q. res = Success q \<longrightarrow> q = Some p))"
proof -
  from wf_store_found_nonzero [OF wf g] have nz: "p \<noteq> 0" .
  have a: "ingest_file lib validate md5 now co True (st, vs) tmp_name up = (Skipped p, st, vs)"
    using p h g nz by (simp add: ingest_file_def ingest_processed_def)
  have b: "\<forall>res st' vs'.
            ingest_file lib validate md5 now co False (st, vs) tmp_name up = (res, st', vs') \<longrightarrow>
            profiles st' = profiles st \<and> (\<forall>q. res = Success q \<longrightarrow> q = Some p)"
  proof (intro allI impI)
    fix res st' vs'
    assume r: "ingest_file lib validate md5 now co False (st, vs) tmp_name up = (res, st', vs')"
    obtain z st2 vs2 where s: "store_data_in_database co (st, vs) md ms = (z, st2, vs2)"
      by (cases "store_data_in_database co (st, vs) md ms") auto
    from store_data_in_database_existing [OF g h s] have
      "profiles st2 = profiles st" "\<forall>q. z = Inr q \<longrightarrow> q = Some p" by simp_all
    with r p s show "profiles st' = profiles st \<and> (\<forall>q. res = Success q \<longrightarrow> q = Some p)"
      by (auto simp: ingest_file_def ingest_processed_def split: sum.splits)
  qed
  from a b show ?thesis by (rule conjI)
qed

theorem reingest_existing_digest_witness:
  "second_run True = (Skipped 1, snd first_run) \<and>
   profiles (fst (snd (second_run False))) = profiles (fst (snd first_run)) \<and>
   fst (second_run False) = Success (Some 1)"
proof -
  let ?st = "fst (snd first_run)"
  let ?vs = "snd (snd first_run)"
  note inst = reingest_existing_digest [OF sample_processed(2) sample_metadata_ok(4)
      first_run_lookup first_run_wf, of sample_co ?vs]
  from inst [THEN conjunct1] have a: "second_run True = (Skipped 1, snd first_run)"
    by (simp add: second_run_def)
  obtain res st' vs' where r:
    "ingest_file sample_lib accept_all sample_md5 0 sample_co False (?st, ?vs) ''tmp2''
       sample_upload = (res, st', vs')"
    by (cases "ingest_file sample_lib accept_all sample_md5 0 sample_co False (?st, ?vs) ''tmp2''
       sample_upload") auto
  from inst [THEN conjunct2, THEN spec, THEN spec, THEN spec, THEN mp, OF r]
  have b: "profiles st' = profiles ?st" and c: "\<forall>q. res = Success q \<longrightarrow> q = Some 1"
    by simp_all
  from r have s2: "second_run False = (res, st', vs')" by (simp add: second_run_def)
  from second_run_result have "res = Success (Some 1)" unfolding s2 by simp
  with a b show ?thesis unfolding s2 by simp
qed

end
